theory Spec2Isabelle
  imports Complex_Main
begin

text \<open>
  A model of the game Black Earth: the module tank.py (the classes \<open>Turret\<close> and
  \<open>Tank\<close>) and the module blackearth.py (the class \<open>BlackEarthGame\<close>), followed
  by the properties of the turret, of the turn order, of the frame update, of the
  set-up and of the projectiles. Rendering is left out.
\<close>

section \<open>Values shared by the two modules\<close>

text \<open>
  The game is written against the arcade and pymunk libraries. Of these only the plain
  data the game code handles is needed here: key codes are integers (\<open>arcade.key\<close>
  re-exports the pyglet key table), a colour is an RGB triple, and \<open>pymunk.Vec2d\<close>
  is a pair of coordinates. Python floats are idealised as reals; no statement below
  depends on their rounding.
\<close>

type_synonym key = int
type_synonym color = "nat \<times> nat \<times> nat"
type_synonym Vec2d = "real \<times> real"

definition LEFT :: key where "LEFT = 65361"
definition RIGHT :: key where "RIGHT = 65363"
definition SPACE :: key where "SPACE = 32"
definition ESCAPE :: key where "ESCAPE = 65307"

text \<open>
  Exceptions are values: a method that can raise returns \<open>py_error + 'a\<close>, with
  \<open>Inl\<close> for the exception. \<open>InvalidTurnOrder\<close> is the failure the specification
  names for an empty turn order; no statement of the two modules raises it.
\<close>

datatype py_error =
  StopIteration | TypeError | AttributeError | ZeroDivisionError | SystemExit | InvalidTurnOrder

text \<open>
  \<open>itertools.cycle(iterable)\<close>: the elements not yet taken from the iterable, the
  elements saved so far, and the position in the saved elements that is used once the
  iterable is exhausted (it starts at 0 and stays below the number of saved
  elements). \<open>next\<close> on a cycle over nothing raises \<open>StopIteration\<close>.
\<close>

datatype 'a cycle = Cycle (pending: "'a list") (saved: "'a list") (index: nat)

definition itertools_cycle :: "'a list \<Rightarrow> 'a cycle" where
  "itertools_cycle xs = Cycle xs [] 0"

fun cycle_next :: "'a cycle \<Rightarrow> py_error + ('a \<times> 'a cycle)" where
  "cycle_next (Cycle (x # xs) sv i) = Inr (x, Cycle xs (sv @ [x]) i)"
| "cycle_next (Cycle [] sv i) =
     (if sv = [] then Inl StopIteration
      else Inr (sv ! i, Cycle [] sv (if i + 1 \<ge> length sv then 0 else i + 1)))"

text \<open>\<open>str(n)\<close> for an integer, as the f-string \<open>f"Player {n}"\<close> formats it.\<close>

fun str_nat :: "nat \<Rightarrow> string" where
  "str_nat n =
     (if n < 10 then [''0123456789'' ! n]
      else str_nat (n div 10) @ [''0123456789'' ! (n mod 10)])"

definition str :: "int \<Rightarrow> string" where
  "str i = (if i < 0 then CHR ''-'' # str_nat (nat (- i)) else str_nat (nat i))"

text \<open>
  A call with keyword arguments only binds when every keyword names a parameter and
  every parameter (none of them has a default here) is given; otherwise Python raises
  \<open>TypeError\<close> before the body of the function runs.
\<close>

definition binds :: "string list \<Rightarrow> string list \<Rightarrow> bool" where
  "binds params keywords \<longleftrightarrow>
     list_all (\<lambda>k. k \<in> set params) keywords \<and> list_all (\<lambda>p. p \<in> set keywords) params"

section \<open>tank.py\<close>

subsection \<open>Module constants\<close>

definition TANK_SIZE :: int where "TANK_SIZE = 50"
definition TANK_TURRET_LENGTH :: int where "TANK_TURRET_LENGTH = 40"
definition TANK_STARTING_ANGLE_DEG :: int where "TANK_STARTING_ANGLE_DEG = 45"
definition TURRET_ANGLE_MAX :: int where "TURRET_ANGLE_MAX = 180"
definition TURRET_ANGLE_MIN :: int where "TURRET_ANGLE_MIN = 0"
definition TURRET_SPEED_STEP :: int where "TURRET_SPEED_STEP = 2"

subsection \<open>class Turret\<close>

text \<open>
  The attributes of a \<open>Turret\<close> object. The attribute \<open>position\<close> is called
  \<open>turretposition\<close> here because \<open>Tank\<close> has an attribute of the same name.
\<close>

record Turret =
  turretname :: string
  turretposition :: Vec2d
  turretcolor :: color
  turretAngleDeg :: int
  turretLength :: int
  turretSpeed :: int

definition Turret_init :: "string \<Rightarrow> Vec2d \<Rightarrow> color \<Rightarrow> Turret" where
  "Turret_init n p c =
     \<lparr> turretname = n, turretposition = p, turretcolor = c,
       turretAngleDeg = TANK_STARTING_ANGLE_DEG, turretLength = TANK_TURRET_LENGTH,
       turretSpeed = 0 \<rparr>"

text \<open>Two independent \<open>if\<close> statements, in the order of the source.\<close>

definition Turret_on_key_press :: "Turret \<Rightarrow> key \<Rightarrow> int \<Rightarrow> Turret" where
  "Turret_on_key_press t k modifiers =
     (let t1 = (if k = LEFT then t\<lparr>turretSpeed := TURRET_SPEED_STEP\<rparr> else t);
          t2 = (if k = RIGHT then t1\<lparr>turretSpeed := - TURRET_SPEED_STEP\<rparr> else t1)
      in t2)"

definition Turret_on_key_release :: "Turret \<Rightarrow> key \<Rightarrow> int \<Rightarrow> Turret" where
  "Turret_on_key_release t k modifiers =
     (let t1 = (if k = LEFT then t\<lparr>turretSpeed := 0\<rparr> else t);
          t2 = (if k = RIGHT then t1\<lparr>turretSpeed := 0\<rparr> else t1);
          t3 = (if k = SPACE then t2\<lparr>turretSpeed := 0\<rparr> else t2)
      in t3)"

text \<open>The angle is advanced when the speed is not zero; the bound is applied in any case.\<close>

definition Turret_on_update :: "Turret \<Rightarrow> Turret" where
  "Turret_on_update t =
     (let t1 = (if turretSpeed t \<noteq> 0
                then t\<lparr>turretAngleDeg := turretAngleDeg t + turretSpeed t\<rparr> else t)
      in if turretAngleDeg t1 > TURRET_ANGLE_MAX then t1\<lparr>turretAngleDeg := TURRET_ANGLE_MAX\<rparr>
         else if turretAngleDeg t1 < TURRET_ANGLE_MIN then t1\<lparr>turretAngleDeg := TURRET_ANGLE_MIN\<rparr>
         else t1)"

subsection \<open>The colour cycle\<close>

definition TANK_COLORS :: "color cycle" where
  "TANK_COLORS = itertools_cycle
     [(255, 0, 0), (0, 0, 255), (0, 128, 0), (255, 255, 0), (230, 230, 250), (255, 20, 147)]"

subsection \<open>class Tank\<close>

text \<open>
  The attribute \<open>size\<close> is called \<open>tanksize\<close> (HOL has a constant \<open>size\<close>). The
  turret is owned by its tank and referenced by nothing else, so it is a field of the
  tank's record.
\<close>

record Tank =
  name :: string
  tanksize :: int
  position :: Vec2d
  color :: color
  turret_obj :: Turret

definition Tank_init_params :: "string list" where
  "Tank_init_params = [''name'', ''position'', ''color'']"

definition Tank_init :: "string \<Rightarrow> Vec2d \<Rightarrow> color \<Rightarrow> Tank" where
  "Tank_init n p c =
     \<lparr> name = n, tanksize = TANK_SIZE, position = p, color = c,
       turret_obj = Turret_init n p c \<rparr>"

definition Tank_on_key_press :: "Tank \<Rightarrow> key \<Rightarrow> int \<Rightarrow> Tank" where
  "Tank_on_key_press tk k modifiers =
     tk\<lparr>turret_obj := Turret_on_key_press (turret_obj tk) k modifiers\<rparr>"

definition Tank_on_key_release :: "Tank \<Rightarrow> key \<Rightarrow> int \<Rightarrow> Tank" where
  "Tank_on_key_release tk k modifiers =
     tk\<lparr>turret_obj := Turret_on_key_release (turret_obj tk) k modifiers\<rparr>"

definition Tank_on_update :: "Tank \<Rightarrow> Tank" where
  "Tank_on_update tk = tk\<lparr>turret_obj := Turret_on_update (turret_obj tk)\<rparr>"

section \<open>blackearth.py\<close>

subsection \<open>Configuration\<close>

text \<open>
  The module \<open>config\<close> is imported by the game and is not one of the two modules.
  The values the game reads from it are parameters: the window size
  (\<open>WindowConfig\<close>) and the gravity and damping of the physics (\<open>PhysicsConfig\<close>).
  \<open>TankConfig.COLORS\<close>, an iterator that \<open>next\<close> advances, is part of the state.
\<close>

record config =
  WIDTH :: real
  HEIGHT :: real
  GRAVITY :: real
  DAMPING :: real

subsection \<open>The collaborators: sprites and the physics engine\<close>

text \<open>
  Objects are referred to by references; two references are the same object exactly
  when they are equal.
\<close>

type_synonym ref = nat

text \<open>What \<open>add_bullet\<close> reads of the projectile it is given.\<close>

record Bullet =
  sprite :: ref
  mass :: real
  friction :: real

datatype body_type = DYNAMIC | STATIC

text \<open>
  Modelled from the spec: the physics engine (\<open>arcade.PymunkPhysicsEngine\<close>) is a
  collaborator outside the two modules. Section 6 gives its interface:
  \<open>addBody(shape, bodyType, collisionCategory, mass?, friction?, damping?)\<close>,
  \<open>registerCollisionHandler(categoryA, categoryB, callback)\<close>,
  \<open>applyImpulse(body, vector)\<close> and \<open>step(deltaTime)\<close>. A body is what \<open>addBody\<close> is
  given; an argument that is left out is \<open>None\<close>.
\<close>

record Body =
  body_sprite :: ref
  body_kind :: body_type
  body_mass :: "real option"
  body_friction :: "real option"
  body_damping :: "real option"
  collision_type :: string

text \<open>
  Modelled from the spec: the state of the engine is its gravity and damping, the
  registry of bodies, the pairs of categories for which a post-collision handler
  is registered (the game has one handler, \<open>bullet_ground_handler\<close>), and the
  impulses applied so far. How the bodies move is not modelled.
\<close>

record PymunkPhysicsEngine =
  engine_gravity :: Vec2d
  engine_damping :: real
  bodies :: "Body list"
  handlers :: "(string \<times> string) list"
  impulses :: "(ref \<times> Vec2d) list"

text \<open>Modelled from the spec: \<open>add_sprite\<close> (\<open>addBody\<close>) puts the body into the registry.\<close>

definition add_sprite :: "PymunkPhysicsEngine \<Rightarrow> Body \<Rightarrow> PymunkPhysicsEngine" where
  "add_sprite eng b = eng\<lparr>bodies := bodies eng @ [b]\<rparr>"

text \<open>Modelled from the spec: \<open>apply_impulse\<close> (\<open>applyImpulse\<close>) applies the vector once.\<close>

definition apply_impulse :: "PymunkPhysicsEngine \<Rightarrow> ref \<Rightarrow> Vec2d \<Rightarrow> PymunkPhysicsEngine" where
  "apply_impulse eng s v = eng\<lparr>impulses := impulses eng @ [(s, v)]\<rparr>"

text \<open>
  Modelled from the spec: \<open>add_collision_handler\<close> (\<open>registerCollisionHandler\<close>)
  registers the handler for the pair of categories.
\<close>

definition add_collision_handler ::
  "PymunkPhysicsEngine \<Rightarrow> string \<Rightarrow> string \<Rightarrow> PymunkPhysicsEngine" where
  "add_collision_handler eng a b = eng\<lparr>handlers := handlers eng @ [(a, b)]\<rparr>"

text \<open>
  Modelled from the spec: removing a sprite from the physics tracking (section 4.4)
  takes its bodies out of the registry.
\<close>

definition remove_sprite :: "PymunkPhysicsEngine \<Rightarrow> ref \<Rightarrow> PymunkPhysicsEngine" where
  "remove_sprite eng s = eng\<lparr>bodies := filter (\<lambda>b. body_sprite b \<noteq> s) (bodies eng)\<rparr>"

text \<open>
  Modelled from the spec: the category under which a sprite is registered (that of
  its first body), if it is registered.
\<close>

definition collision_type_of :: "PymunkPhysicsEngine \<Rightarrow> ref \<Rightarrow> string option" where
  "collision_type_of eng s = map_of (map (\<lambda>b. (body_sprite b, collision_type b)) (bodies eng)) s"

subsection \<open>class BlackEarthGame: the state\<close>

text \<open>
  The attributes of the game object, the store of the \<open>Tank\<close> objects it refers to
  (\<open>tanks\<close>, with \<open>heap_next\<close> the next unused reference), and \<open>TankConfig.COLORS\<close>.
  An attribute that has not been assigned yet is \<open>None\<close>; reading it raises
  \<open>AttributeError\<close>. (\<open>bullets_list\<close> is Python's \<open>None\<close> and \<open>physics_engine\<close> a
  typing construct until \<open>setup\<close> assigns them; calling a method on either raises
  \<open>AttributeError\<close> as well.) The sprite list \<open>bullets_list\<close> is the list of
  its sprites, in the order in which they were appended. \<open>detonations\<close> records
  the calls of \<open>detonate()\<close>, a method of the projectile's class, which is outside
  the two modules.
\<close>

record game =
  tanks :: "ref \<Rightarrow> Tank"
  heap_next :: ref
  COLORS :: "color cycle"
  tanksList :: "ref list option"
  tanksCycle :: "ref cycle option"
  activeTank :: "ref option"
  ground :: "ref option"
  bullets_list :: "ref list option"
  physics_engine :: "PymunkPhysicsEngine option"
  detonations :: "ref list"

text \<open>
  The state when \<open>__init__\<close> has run: no tank exists (every cell of the store holds
  a placeholder), and \<open>colors\<close> is the value of \<open>TankConfig.COLORS\<close>.
\<close>

definition BlackEarthGame_init :: "color cycle \<Rightarrow> game" where
  "BlackEarthGame_init colors =
     \<lparr> tanks = (\<lambda>r. Tank_init [] (0, 0) (0, 0, 0)), heap_next = 0, COLORS = colors,
       tanksList = None, tanksCycle = None, activeTank = None, ground = None,
       bullets_list = None, physics_engine = None, detonations = [] \<rparr>"

subsection \<open>create_tanks\<close>

text \<open>
  One round of the loop. The arguments of the call are evaluated first, in their
  order: the name, the position (a true division) and the next colour. Then the call
  \<open>tank.Tank(name=..., parent=..., position=..., color=...)\<close> is bound against the
  parameters of \<open>Tank.__init__\<close>. When it binds, the new tank gets a fresh reference
  and is appended to the list.
\<close>

definition new_tank :: "config \<Rightarrow> game \<Rightarrow> int \<Rightarrow> int \<Rightarrow> py_error + game" where
  "new_tank cfg g num_tanks n =
     (if num_tanks + 1 = 0 then Inl ZeroDivisionError
      else
        (case cycle_next (COLORS g) of
           Inl e \<Rightarrow> Inl e
         | Inr (col, cs) \<Rightarrow>
             if \<not> binds Tank_init_params [''name'', ''parent'', ''position'', ''color'']
             then Inl TypeError
             else
               (case tanksList g of
                  None \<Rightarrow> Inl AttributeError
                | Some xs \<Rightarrow>
                    let r = heap_next g;
                        tk = Tank_init (''Player '' @ str n)
                               (WIDTH cfg * real_of_int n / real_of_int (num_tanks + 1),
                                HEIGHT cfg / 3) col
                    in Inr (g\<lparr>COLORS := cs, tanks := (tanks g)(r := tk),
                               heap_next := r + 1, tanksList := Some (xs @ [r])\<rparr>))))"

fun create_tanks_loop :: "config \<Rightarrow> int \<Rightarrow> game \<Rightarrow> int list \<Rightarrow> py_error + game" where
  "create_tanks_loop cfg num_tanks g [] = Inr g"
| "create_tanks_loop cfg num_tanks g (n # ns) =
     (case new_tank cfg g num_tanks n of
        Inl e \<Rightarrow> Inl e
      | Inr g' \<Rightarrow> create_tanks_loop cfg num_tanks g' ns)"

text \<open>The last two statements: the circular iterator over the list, and its first element.\<close>

definition create_tanks_cycle :: "game \<Rightarrow> py_error + game" where
  "create_tanks_cycle g =
     (case tanksList g of
        None \<Rightarrow> Inl AttributeError
      | Some xs \<Rightarrow>
          (case cycle_next (itertools_cycle xs) of
             Inl e \<Rightarrow> Inl e
           | Inr (tk, cyc) \<Rightarrow> Inr (g\<lparr>tanksCycle := Some cyc, activeTank := Some tk\<rparr>)))"

text \<open>\<open>range(1, num_tanks + 1)\<close> is the list \<open>[1..num_tanks]\<close>, empty when \<open>num_tanks < 1\<close>.\<close>

definition create_tanks :: "config \<Rightarrow> game \<Rightarrow> int \<Rightarrow> py_error + game" where
  "create_tanks cfg g num_tanks =
     (case create_tanks_loop cfg num_tanks (g\<lparr>tanksList := Some []\<rparr>) [1..num_tanks] of
        Inl e \<Rightarrow> Inl e
      | Inr g' \<Rightarrow> create_tanks_cycle g')"

subsection \<open>The environment and the physics\<close>

text \<open>
  The ground is a sprite; its size, colour and centre are read by the renderer only,
  so the sprite is its reference.
\<close>

definition create_environment :: "game \<Rightarrow> game" where
  "create_environment g = g\<lparr>ground := Some (heap_next g), heap_next := heap_next g + 1\<rparr>"

definition setup_physics_engine :: "config \<Rightarrow> game \<Rightarrow> game" where
  "setup_physics_engine cfg g =
     g\<lparr>physics_engine := Some \<lparr> engine_gravity = (0, GRAVITY cfg), engine_damping = DAMPING cfg,
                                bodies = [], handlers = [], impulses = [] \<rparr>\<rparr>"

definition setup_physics_collisions :: "game \<Rightarrow> py_error + game" where
  "setup_physics_collisions g =
     (case physics_engine g of
        None \<Rightarrow> Inl AttributeError
      | Some eng \<Rightarrow>
          (case ground g of
             None \<Rightarrow> Inl AttributeError
           | Some gr \<Rightarrow>
               let eng1 = add_sprite eng
                            \<lparr> body_sprite = gr, body_kind = STATIC, body_mass = None,
                              body_friction = None, body_damping = None,
                              collision_type = ''ground'' \<rparr>;
                   eng2 = add_collision_handler eng1 ''bullet'' ''ground''
               in Inr (g\<lparr>physics_engine := Some eng2\<rparr>)))"

definition BlackEarthGame_setup :: "config \<Rightarrow> game \<Rightarrow> int \<Rightarrow> py_error + game" where
  "BlackEarthGame_setup cfg g num_tanks =
     (case create_tanks cfg g num_tanks of
        Inl e \<Rightarrow> Inl e
      | Inr g1 \<Rightarrow>
          let g2 = create_environment g1;
              g3 = g2\<lparr>bullets_list := Some []\<rparr>;
              g4 = setup_physics_engine cfg g3
          in setup_physics_collisions g4)"

subsection \<open>Projectiles\<close>

text \<open>The parameter \<open>power\<close> is called \<open>pwr\<close> (HOL has a constant \<open>power\<close>).\<close>

definition add_bullet :: "config \<Rightarrow> game \<Rightarrow> Bullet \<Rightarrow> real \<Rightarrow> py_error + game" where
  "add_bullet cfg g bullet pwr =
     (case bullets_list g of
        None \<Rightarrow> Inl AttributeError
      | Some bl \<Rightarrow>
          let g1 = g\<lparr>bullets_list := Some (bl @ [sprite bullet])\<rparr> in
          (case physics_engine g1 of
             None \<Rightarrow> Inl AttributeError
           | Some eng \<Rightarrow>
               let eng1 = add_sprite eng
                            \<lparr> body_sprite = sprite bullet, body_kind = DYNAMIC,
                              body_mass = Some (mass bullet),
                              body_friction = Some (friction bullet),
                              body_damping = Some (DAMPING cfg),
                              collision_type = ''bullet'' \<rparr>;
                   eng2 = apply_impulse eng1 (sprite bullet) (pwr, 0)
               in Inr (g1\<lparr>physics_engine := Some eng2\<rparr>)))"

text \<open>
  Modelled from the spec: \<open>detonate()\<close> belongs to the projectile's class, which is
  not in the two modules; the spec names it as the terminal event of a projectile on
  ground contact. The call is recorded and has no other effect here.
\<close>

definition detonate :: "game \<Rightarrow> ref \<Rightarrow> game" where
  "detonate g b = g\<lparr>detonations := detonations g @ [b]\<rparr>"

text \<open>
  Modelled from the spec: \<open>remove_from_sprite_lists()\<close> is the sprite's own method
  (section 4.4: it removes the projectile from all render and physics tracking): the
  sprite leaves the list of bullets, if there is one, and the registry of the engine.
\<close>

definition remove_from_sprite_lists :: "game \<Rightarrow> ref \<Rightarrow> game" where
  "remove_from_sprite_lists g b =
     g\<lparr>bullets_list := map_option (removeAll b) (bullets_list g),
       physics_engine := map_option (\<lambda>eng. remove_sprite eng b) (physics_engine g)\<rparr>"

definition bullet_ground_handler :: "game \<Rightarrow> ref \<Rightarrow> ref \<Rightarrow> game" where
  "bullet_ground_handler g bullet_sprite ground_sprite =
     remove_from_sprite_lists (detonate g bullet_sprite) bullet_sprite"

text \<open>
  Modelled from the spec: the engine reports a collision of two sprites to the handler
  registered for their pair of categories, if there is one.
\<close>

definition post_collision :: "game \<Rightarrow> ref \<Rightarrow> ref \<Rightarrow> game" where
  "post_collision g a b =
     (case physics_engine g of
        None \<Rightarrow> g
      | Some eng \<Rightarrow>
          (case collision_type_of eng a of
             None \<Rightarrow> g
           | Some ca \<Rightarrow>
               (case collision_type_of eng b of
                  None \<Rightarrow> g
                | Some cb \<Rightarrow>
                    if (ca, cb) \<in> set (handlers eng) then bullet_ground_handler g a b else g)))"

text \<open>
  Modelled from the spec: \<open>step(delta_time)\<close> advances the bodies, which is not
  modelled, and reports the collisions of the step, which are an input here, in their
  order.
\<close>

definition step :: "game \<Rightarrow> real \<Rightarrow> (ref \<times> ref) list \<Rightarrow> game" where
  "step g delta_time collisions = foldl (\<lambda>g' (a, b). post_collision g' a b) g collisions"

subsection \<open>The handlers of the window\<close>

definition BlackEarthGame_on_key_press :: "game \<Rightarrow> key \<Rightarrow> int \<Rightarrow> py_error + game" where
  "BlackEarthGame_on_key_press g k modifiers =
     (case activeTank g of
        None \<Rightarrow> Inl AttributeError
      | Some a \<Rightarrow> Inr (g\<lparr>tanks := (tanks g)(a := Tank_on_key_press (tanks g a) k modifiers)\<rparr>))"

text \<open>
  \<open>exit()\<close> raises \<open>SystemExit\<close>. Otherwise the release goes to the active tank, and
  after that the space bar passes the control to the next tank of the cycle.
\<close>

definition BlackEarthGame_on_key_release :: "game \<Rightarrow> key \<Rightarrow> int \<Rightarrow> py_error + game" where
  "BlackEarthGame_on_key_release g k modifiers =
     (if k = ESCAPE then Inl SystemExit
      else
        (case activeTank g of
           None \<Rightarrow> Inl AttributeError
         | Some a \<Rightarrow>
             let g1 = g\<lparr>tanks := (tanks g)(a := Tank_on_key_release (tanks g a) k modifiers)\<rparr>
             in if k = SPACE
                then
                  (case tanksCycle g1 of
                     None \<Rightarrow> Inl AttributeError
                   | Some cyc \<Rightarrow>
                       (case cycle_next cyc of
                          Inl e \<Rightarrow> Inl e
                        | Inr (tk, cyc') \<Rightarrow>
                            Inr (g1\<lparr>tanksCycle := Some cyc', activeTank := Some tk\<rparr>)))
                else Inr g1))"

text \<open>The collisions that the engine finds in this step come with the frame.\<close>

definition BlackEarthGame_on_update ::
  "game \<Rightarrow> real \<Rightarrow> (ref \<times> ref) list \<Rightarrow> py_error + game" where
  "BlackEarthGame_on_update g delta_time collisions =
     (case activeTank g of
        None \<Rightarrow> Inl AttributeError
      | Some a \<Rightarrow>
          let g1 = g\<lparr>tanks := (tanks g)(a := Tank_on_update (tanks g a))\<rparr> in
          (case physics_engine g1 of
             None \<Rightarrow> Inl AttributeError
           | Some eng \<Rightarrow> Inr (step g1 delta_time collisions)))"

section \<open>Runs and well-formed states\<close>

subsection \<open>Event sequences on one turret\<close>

text \<open>
  What can happen to a turret after its construction: a key press, a key release
  (each with the key and the modifier mask) or a frame update.
\<close>

datatype turret_event = Press key int | Release key int | Update

fun Turret_step :: "Turret \<Rightarrow> turret_event \<Rightarrow> Turret" where
  "Turret_step t (Press k m) = Turret_on_key_press t k m"
| "Turret_step t (Release k m) = Turret_on_key_release t k m"
| "Turret_step t Update = Turret_on_update t"

definition Turret_run :: "Turret \<Rightarrow> turret_event list \<Rightarrow> Turret" where
  "Turret_run t evs = foldl Turret_step t evs"

definition angle_ok :: "Turret \<Rightarrow> bool" where
  "angle_ok t \<longleftrightarrow> TURRET_ANGLE_MIN \<le> turretAngleDeg t \<and> turretAngleDeg t \<le> TURRET_ANGLE_MAX"

subsection \<open>Event sequences on the game\<close>

text \<open>
  The events the window delivers to a game that has been set up: key presses, key
  releases and frames (with the time step and the collisions of the frame). A run
  stops at the first exception.
\<close>

datatype game_event = KeyPress key int | KeyRelease key int | Frame real "(ref \<times> ref) list"

fun game_step :: "game \<Rightarrow> game_event \<Rightarrow> py_error + game" where
  "game_step g (KeyPress k m) = BlackEarthGame_on_key_press g k m"
| "game_step g (KeyRelease k m) = BlackEarthGame_on_key_release g k m"
| "game_step g (Frame dt cs) = BlackEarthGame_on_update g dt cs"

fun run_game :: "game \<Rightarrow> game_event list \<Rightarrow> py_error + game" where
  "run_game g [] = Inr g"
| "run_game g (e # es) = (case game_step g e of Inl x \<Rightarrow> Inl x | Inr g' \<Rightarrow> run_game g' es)"

subsection \<open>The turn order\<close>

text \<open>
  A cycle \<open>c\<close> is a cycle over the list \<open>xs\<close> when its saved and pending elements make
  up \<open>xs\<close>, in this order; its position is the place in \<open>xs\<close> of the element that the
  next call of \<open>next\<close> returns. The active tank is the element returned last, one
  place before, circularly.
\<close>

definition cycle_over :: "'a list \<Rightarrow> 'a cycle \<Rightarrow> bool" where
  "cycle_over xs c \<longleftrightarrow>
     saved c @ pending c = xs \<and>
     (if pending c = [] then index c < length xs else index c = 0)"

definition cycle_pos :: "'a cycle \<Rightarrow> nat" where
  "cycle_pos c = (if pending c = [] then index c else length (saved c))"

definition active_index :: "'a list \<Rightarrow> 'a cycle \<Rightarrow> nat" where
  "active_index xs c = (cycle_pos c + length xs - 1) mod length xs"

text \<open>
  The turn order of a game is in place: there are tanks, the cycle runs over their
  list and has returned at least one of them, and the active tank is the one it
  returned last.
\<close>

definition turns_ok :: "game \<Rightarrow> bool" where
  "turns_ok g \<longleftrightarrow>
     (case tanksList g of
        None \<Rightarrow> False
      | Some xs \<Rightarrow>
          (case tanksCycle g of
             None \<Rightarrow> False
           | Some c \<Rightarrow>
               xs \<noteq> [] \<and> saved c \<noteq> [] \<and> cycle_over xs c \<and>
               activeTank g = Some (xs ! active_index xs c)))"

subsection \<open>A game of two tanks\<close>

text \<open>
  The states used as examples: a window of 800 by 600, and two tanks as the loop
  of \<open>create_tanks\<close> is written to place them, before the cycle is made
  (\<open>demo_tanks\<close>) and when the whole of the set-up has run (\<open>demo_game\<close>).
\<close>

definition demo_config :: config where
  "demo_config = \<lparr> WIDTH = 800, HEIGHT = 600, GRAVITY = - 900, DAMPING = 1 \<rparr>"

definition demo_tanks :: game where
  "demo_tanks =
     \<lparr> tanks = (\<lambda>r. Tank_init [] (0, 0) (0, 0, 0))
         (0 := Tank_init ''Player 1'' (800 / 3, 200) (255, 0, 0),
          1 := Tank_init ''Player 2'' (1600 / 3, 200) (0, 0, 255)),
       heap_next = 2,
       COLORS = Cycle [(0, 128, 0), (255, 255, 0), (230, 230, 250), (255, 20, 147)]
                  [(255, 0, 0), (0, 0, 255)] 0,
       tanksList = Some [0, 1], tanksCycle = None, activeTank = None, ground = None,
       bullets_list = None, physics_engine = None, detonations = [] \<rparr>"

definition demo_engine :: PymunkPhysicsEngine where
  "demo_engine =
     \<lparr> engine_gravity = (0, - 900), engine_damping = 1,
       bodies = [\<lparr> body_sprite = 2, body_kind = STATIC, body_mass = None,
                   body_friction = None, body_damping = None,
                   collision_type = ''ground'' \<rparr>],
       handlers = [(''bullet'', ''ground'')], impulses = [] \<rparr>"

definition demo_game :: game where
  "demo_game =
     demo_tanks
       \<lparr> heap_next := 3,
         tanksCycle := Some (Cycle [1] [0] 0), activeTank := Some 0, ground := Some 2,
         bullets_list := Some [], physics_engine := Some demo_engine \<rparr>"

definition demo_bullet :: Bullet where
  "demo_bullet = \<lparr> sprite = 7, mass = 1 / 2, friction = 3 / 5 \<rparr>"

text \<open>What an event does to the turn: only the release of SPACE or ESCAPE can end it.\<close>

fun keeps_turn :: "game_event \<Rightarrow> bool" where
  "keeps_turn (KeyRelease k m) \<longleftrightarrow> k \<noteq> SPACE \<and> k \<noteq> ESCAPE"
| "keeps_turn (KeyPress k m) \<longleftrightarrow> True"
| "keeps_turn (Frame dt cs) \<longleftrightarrow> True"

section \<open>Properties of the turret\<close>

lemmas key_defs = LEFT_def RIGHT_def SPACE_def ESCAPE_def

lemmas turret_consts =
  TANK_STARTING_ANGLE_DEG_def TURRET_ANGLE_MAX_def TURRET_ANGLE_MIN_def TURRET_SPEED_STEP_def

subsection \<open>What each method does to the angle and to the speed\<close>

lemma on_update_angle_ok: "angle_ok (Turret_on_update t)"
  by (simp add: angle_ok_def Turret_on_update_def Let_def turret_consts)

lemma on_update_angle:
  "turretAngleDeg (Turret_on_update t) =
     max TURRET_ANGLE_MIN (min TURRET_ANGLE_MAX (turretAngleDeg t + turretSpeed t))"
  by (simp add: Turret_on_update_def Let_def turret_consts)

lemma on_update_speed [simp]: "turretSpeed (Turret_on_update t) = turretSpeed t"
  by (simp add: Turret_on_update_def Let_def)

lemma on_key_press_angle [simp]:
  "turretAngleDeg (Turret_on_key_press t k m) = turretAngleDeg t"
  by (simp add: Turret_on_key_press_def Let_def)

lemma on_key_release_angle [simp]:
  "turretAngleDeg (Turret_on_key_release t k m) = turretAngleDeg t"
  by (simp add: Turret_on_key_release_def Let_def)

lemma press_LEFT_speed: "turretSpeed (Turret_on_key_press t LEFT m) = TURRET_SPEED_STEP"
  by (simp add: Turret_on_key_press_def Let_def key_defs)

lemma press_RIGHT_speed: "turretSpeed (Turret_on_key_press t RIGHT m) = - TURRET_SPEED_STEP"
  by (simp add: Turret_on_key_press_def Let_def key_defs)

lemma release_speed:
  assumes "k = LEFT \<or> k = RIGHT \<or> k = SPACE"
  shows "turretSpeed (Turret_on_key_release t k m) = 0"
  using assms by (auto simp add: Turret_on_key_release_def Let_def)

lemma on_update_idle:
  assumes "turretSpeed t = 0" and "angle_ok t"
  shows "turretAngleDeg (Turret_on_update t) = turretAngleDeg t"
  using assms by (simp add: on_update_angle angle_ok_def)

subsection \<open>The angle stays within its bounds\<close>

lemma Turret_step_angle_ok: "angle_ok t \<Longrightarrow> angle_ok (Turret_step t e)"
  by (cases e) (simp_all add: on_update_angle_ok, simp_all add: angle_ok_def)

lemma Turret_init_angle_ok: "angle_ok (Turret_init n p c)"
  by (simp add: angle_ok_def Turret_init_def turret_consts)

lemma foldl_step_angle_ok: "angle_ok t \<Longrightarrow> angle_ok (foldl Turret_step t evs)"
  by (induction evs arbitrary: t) (simp_all add: Turret_step_angle_ok)

lemma Turret_run_angle_ok: "angle_ok (Turret_run (Turret_init n p c) evs)"
  by (simp add: Turret_run_def foldl_step_angle_ok Turret_init_angle_ok)

lemma updates_speed [simp]: "turretSpeed ((Turret_on_update ^^ k) t) = turretSpeed t"
  by (induction k) simp_all

text \<open>
  C1. Whatever keys are pressed and released, and however the updates are interleaved
  with them, a turret that starts at 45 degrees has its angle within [0, 180] after
  every update: every update call of a run is the last event of a prefix of the run.
\<close>

theorem C1_angle_within_bounds_after_update:
  "turretAngleDeg (Turret_init n p c) = 45 \<and>
   0 \<le> turretAngleDeg (Turret_run (Turret_init n p c) (evs @ [Update])) \<and>
   turretAngleDeg (Turret_run (Turret_init n p c) (evs @ [Update])) \<le> 180"
proof -
  have "angle_ok (Turret_run (Turret_init n p c) (evs @ [Update]))"
    by (rule Turret_run_angle_ok)
  then show ?thesis
    by (simp add: angle_ok_def turret_consts Turret_init_def)
qed

subsection \<open>Holding a direction key\<close>

lemma updates_increase:
  assumes "turretSpeed t = TURRET_SPEED_STEP" and "angle_ok t"
  shows "turretAngleDeg ((Turret_on_update ^^ k) t) =
           min (turretAngleDeg t + int k * TURRET_SPEED_STEP) TURRET_ANGLE_MAX"
proof (induction k)
  case 0
  from assms(2) show ?case by (simp add: angle_ok_def)
next
  case (Suc k)
  from assms(2) have "TURRET_ANGLE_MIN \<le> turretAngleDeg t" by (simp add: angle_ok_def)
  with Suc assms(1) show ?case
    by (simp add: on_update_angle turret_consts)
qed

lemma updates_decrease:
  assumes "turretSpeed t = - TURRET_SPEED_STEP" and "angle_ok t"
  shows "turretAngleDeg ((Turret_on_update ^^ k) t) =
           max (turretAngleDeg t - int k * TURRET_SPEED_STEP) TURRET_ANGLE_MIN"
proof (induction k)
  case 0
  from assms(2) show ?case by (simp add: angle_ok_def)
next
  case (Suc k)
  from assms(2) have "turretAngleDeg t \<le> TURRET_ANGLE_MAX" by (simp add: angle_ok_def)
  with Suc assms(1) show ?case
    by (simp add: on_update_angle turret_consts)
qed

text \<open>
  C2. From an angle within the bounds, pressing the aim-increase key (LEFT) and
  updating \<open>k\<close> times adds \<open>min (k * STEP) (180 - angle)\<close> to the angle; pressing the
  aim-decrease key (RIGHT) and updating \<open>k\<close> times takes \<open>min (k * STEP) (angle - 0)\<close>
  from it. With the step 2 and a new turret (45 degrees): LEFT and ten updates give 65;
  releasing LEFT, pressing RIGHT and fifty updates then give exactly 0.
\<close>

theorem C2_updates_after_press:
  assumes "TURRET_ANGLE_MIN \<le> turretAngleDeg t" and "turretAngleDeg t \<le> TURRET_ANGLE_MAX"
  shows "turretAngleDeg ((Turret_on_update ^^ k) (Turret_on_key_press t LEFT m)) =
           turretAngleDeg t + min (int k * TURRET_SPEED_STEP) (180 - turretAngleDeg t) \<and>
         turretAngleDeg ((Turret_on_update ^^ k) (Turret_on_key_press t RIGHT m)) =
           turretAngleDeg t - min (int k * TURRET_SPEED_STEP) (turretAngleDeg t - 0) \<and>
         TURRET_SPEED_STEP = 2 \<and>
         (let t0 = Turret_init n p c;
              t1 = (Turret_on_update ^^ 10) (Turret_on_key_press t0 LEFT m);
              t2 = (Turret_on_update ^^ 50)
                     (Turret_on_key_press (Turret_on_key_release t1 LEFT m) RIGHT m)
          in turretAngleDeg t0 = 45 \<and> turretAngleDeg t1 = 65 \<and> turretAngleDeg t2 = 0)"
proof -
  have ok: "angle_ok (Turret_on_key_press t k m)" for k
    using assms by (simp add: angle_ok_def)
  have up: "turretAngleDeg ((Turret_on_update ^^ k) (Turret_on_key_press t LEFT m)) =
           turretAngleDeg t + min (int k * TURRET_SPEED_STEP) (180 - turretAngleDeg t)"
    unfolding updates_increase [OF press_LEFT_speed ok]
    by (simp add: turret_consts)
  have down: "turretAngleDeg ((Turret_on_update ^^ k) (Turret_on_key_press t RIGHT m)) =
           turretAngleDeg t - min (int k * TURRET_SPEED_STEP) (turretAngleDeg t - 0)"
    unfolding updates_decrease [OF press_RIGHT_speed ok]
    by (simp add: turret_consts)
  define t0 where "t0 = Turret_init n p c"
  define t1 where "t1 = (Turret_on_update ^^ 10) (Turret_on_key_press t0 LEFT m)"
  define t2 where "t2 = (Turret_on_update ^^ 50)
                     (Turret_on_key_press (Turret_on_key_release t1 LEFT m) RIGHT m)"
  have a0: "turretAngleDeg t0 = 45"
    by (simp add: t0_def Turret_init_def turret_consts)
  have ok0: "angle_ok (Turret_on_key_press t0 LEFT m)"
    using Turret_init_angle_ok [of n p c] by (simp add: angle_ok_def t0_def)
  have a1: "turretAngleDeg t1 = 65"
    unfolding t1_def updates_increase [OF press_LEFT_speed ok0]
    by (simp add: a0 turret_consts)
  have ok1: "angle_ok (Turret_on_key_press (Turret_on_key_release t1 LEFT m) RIGHT m)"
    by (simp add: a1 angle_ok_def turret_consts)
  have a2: "turretAngleDeg t2 = 0"
    unfolding t2_def updates_decrease [OF press_RIGHT_speed ok1]
    by (simp add: a1 turret_consts)
  have step: "TURRET_SPEED_STEP = 2"
    by (simp add: turret_consts)
  have "turretAngleDeg t0 = 45 \<and> turretAngleDeg t1 = 65 \<and> turretAngleDeg t2 = 0"
    using a0 a1 a2 by blast
  then have "let t0 = Turret_init n p c;
              t1 = (Turret_on_update ^^ 10) (Turret_on_key_press t0 LEFT m);
              t2 = (Turret_on_update ^^ 50)
                     (Turret_on_key_press (Turret_on_key_release t1 LEFT m) RIGHT m)
          in turretAngleDeg t0 = 45 \<and> turretAngleDeg t1 = 65 \<and> turretAngleDeg t2 = 0"
    unfolding Let_def t2_def t1_def t0_def .
  with up down step show ?thesis by blast
qed

text \<open>
  The theorem at a new turret: seventy updates after LEFT reach the upper bound
  (45 + 140 would be 185), three updates after RIGHT give 39.
\<close>

theorem C2_updates_after_press_witness:
  "TURRET_ANGLE_MIN \<le> turretAngleDeg (Turret_init ''Player 1'' (100, 200) (255, 0, 0)) \<and>
   turretAngleDeg (Turret_init ''Player 1'' (100, 200) (255, 0, 0)) \<le> TURRET_ANGLE_MAX \<and>
   turretAngleDeg ((Turret_on_update ^^ 70)
      (Turret_on_key_press (Turret_init ''Player 1'' (100, 200) (255, 0, 0)) LEFT 0)) = 180 \<and>
   turretAngleDeg ((Turret_on_update ^^ 3)
      (Turret_on_key_press (Turret_init ''Player 1'' (100, 200) (255, 0, 0)) RIGHT 0)) = 39"
proof -
  let ?t = "Turret_init ''Player 1'' (100, 200) (255, 0, 0)"
  have lo: "TURRET_ANGLE_MIN \<le> turretAngleDeg ?t"
    by (simp add: Turret_init_def turret_consts)
  have hi: "turretAngleDeg ?t \<le> TURRET_ANGLE_MAX"
    by (simp add: Turret_init_def turret_consts)
  have a: "turretAngleDeg ?t = 45"
    by (simp add: Turret_init_def turret_consts)
  have "turretAngleDeg ((Turret_on_update ^^ 70) (Turret_on_key_press ?t LEFT 0)) =
          turretAngleDeg ?t + min (int 70 * TURRET_SPEED_STEP) (180 - turretAngleDeg ?t)"
    using C2_updates_after_press [OF lo hi, of 70 0] by (rule conjunct1)
  also have "\<dots> = 180"
    unfolding a by (simp add: turret_consts)
  finally have up:
    "turretAngleDeg ((Turret_on_update ^^ 70) (Turret_on_key_press ?t LEFT 0)) = 180" .
  have "turretAngleDeg ((Turret_on_update ^^ 3) (Turret_on_key_press ?t RIGHT 0)) =
          turretAngleDeg ?t - min (int 3 * TURRET_SPEED_STEP) (turretAngleDeg ?t - 0)"
    using C2_updates_after_press [OF lo hi, of 3 0] by blast
  also have "\<dots> = 39"
    unfolding a by (simp add: turret_consts)
  finally have down:
    "turretAngleDeg ((Turret_on_update ^^ 3) (Turret_on_key_press ?t RIGHT 0)) = 39" .
  from lo hi up down show ?thesis by blast
qed

subsection \<open>Releasing a key\<close>

text \<open>
  C7. In every state a turret can be in (any run of events after its construction),
  releasing LEFT, RIGHT or SPACE leaves the speed at 0, and the update that follows
  the release does not change the angle.
\<close>

theorem C7_release_stops_the_turret:
  fixes n p c evs m
  defines "t \<equiv> Turret_run (Turret_init n p c) evs"
  shows "turretSpeed (Turret_on_key_release t LEFT m) = 0 \<and>
         turretSpeed (Turret_on_key_release t RIGHT m) = 0 \<and>
         turretSpeed (Turret_on_key_release t SPACE m) = 0 \<and>
         turretAngleDeg (Turret_on_update (Turret_on_key_release t LEFT m)) =
           turretAngleDeg (Turret_on_key_release t LEFT m) \<and>
         turretAngleDeg (Turret_on_update (Turret_on_key_release t RIGHT m)) =
           turretAngleDeg (Turret_on_key_release t RIGHT m) \<and>
         turretAngleDeg (Turret_on_update (Turret_on_key_release t SPACE m)) =
           turretAngleDeg (Turret_on_key_release t SPACE m)"
proof -
  have ok: "angle_ok (Turret_on_key_release t k m)" for k
    using Turret_run_angle_ok [of n p c evs] by (simp add: angle_ok_def t_def)
  have speed: "turretSpeed (Turret_on_key_release t k m) = 0"
    if "k = LEFT \<or> k = RIGHT \<or> k = SPACE" for k
    using that by (rule release_speed)
  have still: "turretAngleDeg (Turret_on_update (Turret_on_key_release t k m)) =
                 turretAngleDeg (Turret_on_key_release t k m)"
    if "k = LEFT \<or> k = RIGHT \<or> k = SPACE" for k
    using speed [OF that] ok by (rule on_update_idle)
  show ?thesis
    using speed [of LEFT] speed [of RIGHT] speed [of SPACE]
      still [of LEFT] still [of RIGHT] still [of SPACE]
    by blast
qed

text \<open>
  C10. The speed after a key event depends on that event alone. Pressing RIGHT sets
  the speed to \<open>-STEP\<close> and pressing LEFT sets it to \<open>STEP\<close>, whatever was pressed before
  (so with LEFT held, RIGHT wins, and the other way round); releasing LEFT, RIGHT or
  SPACE sets it to 0, also when the other direction key has been pressed and not
  released.
\<close>

theorem C10_last_key_event_decides_the_speed:
  "turretSpeed (Turret_on_key_press t RIGHT m) = - TURRET_SPEED_STEP \<and>
   turretSpeed (Turret_on_key_press t LEFT m) = TURRET_SPEED_STEP \<and>
   turretSpeed (Turret_on_key_press (Turret_on_key_press t LEFT m) RIGHT m') =
     - TURRET_SPEED_STEP \<and>
   turretSpeed (Turret_on_key_release t LEFT m) = 0 \<and>
   turretSpeed (Turret_on_key_release t RIGHT m) = 0 \<and>
   turretSpeed (Turret_on_key_release t SPACE m) = 0 \<and>
   turretSpeed (Turret_on_key_release
     (Turret_on_key_press (Turret_on_key_press t LEFT m) RIGHT m') LEFT m'') = 0 \<and>
   turretSpeed (Turret_on_key_release
     (Turret_on_key_press (Turret_on_key_press t LEFT m) RIGHT m') RIGHT m'') = 0 \<and>
   turretSpeed (Turret_on_key_release
     (Turret_on_key_press (Turret_on_key_press t LEFT m) RIGHT m') SPACE m'') = 0 \<and>
   turretSpeed (Turret_on_key_release
     (Turret_on_key_press (Turret_on_key_press t RIGHT m) LEFT m') RIGHT m'') = 0"
proof -
  have rel: "turretSpeed (Turret_on_key_release u k x) = 0"
    if "k = LEFT \<or> k = RIGHT \<or> k = SPACE" for u k x
    using that by (rule release_speed)
  show ?thesis
    by (simp add: press_LEFT_speed press_RIGHT_speed rel)
qed

section \<open>Properties of the game\<close>

subsection \<open>The example state is what the set-up code makes of two tanks\<close>

lemma demo_game_set_up:
  "\<exists>g1. create_tanks_cycle demo_tanks = Inr g1 \<and>
     setup_physics_collisions
       (setup_physics_engine demo_config ((create_environment g1)\<lparr>bullets_list := Some []\<rparr>)) =
     Inr demo_game"
  by (simp add: create_tanks_cycle_def demo_tanks_def itertools_cycle_def
      setup_physics_collisions_def setup_physics_engine_def create_environment_def
      demo_config_def demo_game_def demo_engine_def add_sprite_def add_collision_handler_def)

lemma demo_game_fields:
  "tanksList demo_game = Some [0, 1]"
  "tanksCycle demo_game = Some (Cycle [1] [0] 0)"
  "activeTank demo_game = Some 0"
  "bullets_list demo_game = Some []"
  "physics_engine demo_game = Some demo_engine"
  by (simp_all add: demo_game_def demo_tanks_def)

lemma demo_game_turns_ok: "turns_ok demo_game"
  by (simp add: turns_ok_def demo_game_fields cycle_over_def active_index_def cycle_pos_def)

subsection \<open>The cycle\<close>

lemma cycle_pos_less:
  assumes "cycle_over xs c" and "xs \<noteq> []"
  shows "cycle_pos c < length xs"
proof (cases "pending c = []")
  case True
  with assms show ?thesis by (simp add: cycle_over_def cycle_pos_def)
next
  case False
  from assms(1) have "length xs = length (saved c) + length (pending c)"
    by (auto simp add: cycle_over_def)
  with False show ?thesis by (simp add: cycle_pos_def)
qed

text \<open>
  \<open>next\<close> on a cycle over a list that is not empty never raises: it returns the
  element at the position, and the position moves on by one, circularly.
\<close>

lemma cycle_next_over:
  assumes "cycle_over xs c" and "xs \<noteq> []"
  shows "\<exists>c'. cycle_next c = Inr (xs ! cycle_pos c, c') \<and> cycle_over xs c' \<and>
              saved c' \<noteq> [] \<and> cycle_pos c' = (cycle_pos c + 1) mod length xs"
proof (cases c)
  case (Cycle ps sv i)
  show ?thesis
  proof (cases ps)
    case Nil
    with Cycle assms have sv: "sv = xs" and i: "i < length xs"
      by (simp_all add: cycle_over_def)
    from i have "(if length xs \<le> i + 1 then 0 else i + 1) = (i + 1) mod length xs"
      by (cases "Suc i = length xs") auto
    moreover from i have "(if length xs \<le> i + 1 then 0 else i + 1) < length xs"
      by (cases xs) auto
    ultimately show ?thesis
      using Cycle Nil sv i assms(2) by (auto simp add: cycle_over_def cycle_pos_def)
  next
    case (Cons p ps')
    with Cycle assms have xs: "xs = sv @ p # ps'" and i: "i = 0"
      by (simp_all add: cycle_over_def)
    have "length xs = Suc (length sv) + length ps'"
      by (simp add: xs)
    then have "(if ps' = [] then 0 else Suc (length sv)) = Suc (length sv) mod length xs"
      by (cases ps') simp_all
    then show ?thesis
      using Cycle Cons xs i by (simp add: cycle_over_def cycle_pos_def)
  qed
qed

lemma itertools_cycle_over: "xs \<noteq> [] \<Longrightarrow> cycle_over xs (itertools_cycle xs)"
  by (simp add: cycle_over_def itertools_cycle_def)

lemma active_index_after:
  fixes p n :: nat
  assumes "p < n" and "p' = (p + 1) mod n"
  shows "(p' + n - 1) mod n = p" and "((p + n - 1) mod n + 1) mod n = p"
proof -
  from assms(1) have n: "0 < n" by simp
  have "(p' + n - 1) mod n = ((p + 1) mod n + (n - 1)) mod n"
    using n assms(2) by simp
  also have "\<dots> = (p + 1 + (n - 1)) mod n"
    by (simp only: mod_add_left_eq)
  also have "\<dots> = p"
    using assms(1) by simp
  finally show "(p' + n - 1) mod n = p" .
  have "((p + n - 1) mod n + 1) mod n = (p + n - 1 + 1) mod n"
    by (simp only: mod_add_left_eq)
  also have "\<dots> = p"
    using assms(1) by simp
  finally show "((p + n - 1) mod n + 1) mod n = p" .
qed

text \<open>
  The last two statements of \<open>create_tanks\<close> put the turn order in place, with the
  first tank of the list active, whenever the list is not empty.
\<close>

lemma create_tanks_cycle_turns_ok:
  assumes "tanksList g = Some xs" and "xs \<noteq> []"
  shows "\<exists>g'. create_tanks_cycle g = Inr g' \<and> turns_ok g' \<and> tanksList g' = Some xs \<and>
               activeTank g' = Some (xs ! 0) \<and> tanks g' = tanks g"
proof -
  from cycle_next_over [OF itertools_cycle_over [OF assms(2)] assms(2)] obtain c' where
    nx: "cycle_next (itertools_cycle xs) = Inr (xs ! cycle_pos (itertools_cycle xs), c')"
    and over: "cycle_over xs c'" and sv: "saved c' \<noteq> []"
    and pos: "cycle_pos c' = (cycle_pos (itertools_cycle xs) + 1) mod length xs"
    by blast
  have p0: "cycle_pos (itertools_cycle xs) = 0"
    using assms(2) by (simp add: cycle_pos_def itertools_cycle_def)
  have less: "cycle_pos (itertools_cycle xs) < length xs"
    using assms(2) by (simp add: p0)
  have "active_index xs c' = 0"
    unfolding active_index_def using active_index_after(1) [OF less pos] p0 by simp
  with nx over sv assms p0 show ?thesis
    by (simp add: create_tanks_cycle_def turns_ok_def)
qed

subsection \<open>Releasing the fire key\<close>

lemma release_fire:
  assumes ok: "turns_ok g" and xs: "tanksList g = Some xs" and c: "tanksCycle g = Some c"
    and a: "activeTank g = Some a"
  shows "\<exists>c'. cycle_next c = Inr (xs ! cycle_pos c, c') \<and>
           BlackEarthGame_on_key_release g SPACE m =
             Inr (g\<lparr>tanks := (tanks g)(a := Tank_on_key_release (tanks g a) SPACE m),
                    tanksCycle := Some c', activeTank := Some (xs ! cycle_pos c)\<rparr>) \<and>
           cycle_over xs c' \<and> saved c' \<noteq> [] \<and>
           active_index xs c' = cycle_pos c \<and>
           cycle_pos c = (active_index xs c + 1) mod length xs"
proof -
  from ok xs c have ne: "xs \<noteq> []" and over: "cycle_over xs c"
    by (simp_all add: turns_ok_def)
  from cycle_next_over [OF over ne] obtain c' where
    nx: "cycle_next c = Inr (xs ! cycle_pos c, c')" and over': "cycle_over xs c'"
    and sv: "saved c' \<noteq> []" and pos: "cycle_pos c' = (cycle_pos c + 1) mod length xs"
    by blast
  have less: "cycle_pos c < length xs"
    by (rule cycle_pos_less [OF over ne])
  have i1: "active_index xs c' = cycle_pos c"
    unfolding active_index_def by (rule active_index_after(1) [OF less pos])
  have i2: "cycle_pos c = (active_index xs c + 1) mod length xs"
    unfolding active_index_def by (rule active_index_after(2) [OF less pos, symmetric])
  have "BlackEarthGame_on_key_release g SPACE m =
             Inr (g\<lparr>tanks := (tanks g)(a := Tank_on_key_release (tanks g a) SPACE m),
                    tanksCycle := Some c', activeTank := Some (xs ! cycle_pos c)\<rparr>)"
    using a c nx by (simp add: BlackEarthGame_on_key_release_def key_defs)
  with nx over' sv i1 i2 show ?thesis by blast
qed

lemma release_other:
  assumes "activeTank g = Some a" and "k \<noteq> SPACE" and "k \<noteq> ESCAPE"
  shows "BlackEarthGame_on_key_release g k m =
           Inr (g\<lparr>tanks := (tanks g)(a := Tank_on_key_release (tanks g a) k m)\<rparr>)"
  using assms by (simp add: BlackEarthGame_on_key_release_def)

lemma release_ESCAPE: "BlackEarthGame_on_key_release g ESCAPE m = Inl SystemExit"
  by (simp add: BlackEarthGame_on_key_release_def)

lemma press_any:
  assumes "activeTank g = Some a"
  shows "BlackEarthGame_on_key_press g k m =
           Inr (g\<lparr>tanks := (tanks g)(a := Tank_on_key_press (tanks g a) k m)\<rparr>)"
  using assms by (simp add: BlackEarthGame_on_key_press_def)

lemma Tank_release_speed:
  assumes "k = LEFT \<or> k = RIGHT \<or> k = SPACE"
  shows "turretSpeed (turret_obj (Tank_on_key_release tk k m)) = 0"
  using assms by (simp add: Tank_on_key_release_def release_speed)

text \<open>
  C3. In a game whose turn order is in place, releasing the fire key (SPACE) first
  hands the release to the tank that is active at that moment (its turret's speed
  becomes 0, and no other tank is touched), and then takes exactly one element from the
  cycle: the new active tank is the next one of the list, circularly. Releasing any
  other key leaves the active tank and the cycle as they are (ESCAPE ends the
  program instead), and so does pressing any key.
\<close>

theorem C3_fire_release_forwards_then_advances:
  assumes "turns_ok g" and "tanksList g = Some xs" and "tanksCycle g = Some c"
    and "activeTank g = Some a"
  shows "(\<exists>g' c'. BlackEarthGame_on_key_release g SPACE m = Inr g' \<and>
            tanks g' = (tanks g)(a := Tank_on_key_release (tanks g a) SPACE m) \<and>
            turretSpeed (turret_obj (tanks g' a)) = 0 \<and>
            cycle_next c = Inr (xs ! ((active_index xs c + 1) mod length xs), c') \<and>
            tanksCycle g' = Some c' \<and>
            activeTank g' = Some (xs ! ((active_index xs c + 1) mod length xs)) \<and>
            active_index xs c' = (active_index xs c + 1) mod length xs \<and>
            tanksList g' = Some xs \<and> turns_ok g') \<and>
         (\<forall>k. k \<noteq> SPACE \<longrightarrow> k \<noteq> ESCAPE \<longrightarrow>
            (\<exists>g'. BlackEarthGame_on_key_release g k m = Inr g' \<and>
                  activeTank g' = Some a \<and> tanksCycle g' = Some c)) \<and>
         BlackEarthGame_on_key_release g ESCAPE m = Inl SystemExit \<and>
         (\<forall>k. \<exists>g'. BlackEarthGame_on_key_press g k m = Inr g' \<and>
                  activeTank g' = Some a \<and> tanksCycle g' = Some c)"
proof -
  from release_fire [OF assms] obtain c' where
    nx: "cycle_next c = Inr (xs ! cycle_pos c, c')"
    and rel: "BlackEarthGame_on_key_release g SPACE m =
             Inr (g\<lparr>tanks := (tanks g)(a := Tank_on_key_release (tanks g a) SPACE m),
                    tanksCycle := Some c', activeTank := Some (xs ! cycle_pos c)\<rparr>)"
    and over: "cycle_over xs c'" and sv: "saved c' \<noteq> []"
    and i1: "active_index xs c' = cycle_pos c"
    and i2: "cycle_pos c = (active_index xs c + 1) mod length xs"
    by blast
  define g' where
    "g' = g\<lparr>tanks := (tanks g)(a := Tank_on_key_release (tanks g a) SPACE m),
            tanksCycle := Some c', activeTank := Some (xs ! cycle_pos c)\<rparr>"
  from assms(1,2) have ne: "xs \<noteq> []"
    by (simp add: turns_ok_def split: option.splits)
  have ok': "turns_ok g'"
    using assms(2) ne over sv i1 by (simp add: turns_ok_def g'_def)
  have speed: "turretSpeed (turret_obj (tanks g' a)) = 0"
    by (simp add: g'_def Tank_release_speed)
  have fire: "\<exists>g' c'. BlackEarthGame_on_key_release g SPACE m = Inr g' \<and>
            tanks g' = (tanks g)(a := Tank_on_key_release (tanks g a) SPACE m) \<and>
            turretSpeed (turret_obj (tanks g' a)) = 0 \<and>
            cycle_next c = Inr (xs ! ((active_index xs c + 1) mod length xs), c') \<and>
            tanksCycle g' = Some c' \<and>
            activeTank g' = Some (xs ! ((active_index xs c + 1) mod length xs)) \<and>
            active_index xs c' = (active_index xs c + 1) mod length xs \<and>
            tanksList g' = Some xs \<and> turns_ok g'"
  proof (intro exI conjI)
    show "BlackEarthGame_on_key_release g SPACE m = Inr g'"
      using rel by (simp add: g'_def)
    show "tanks g' = (tanks g)(a := Tank_on_key_release (tanks g a) SPACE m)"
      by (simp add: g'_def)
    show "turretSpeed (turret_obj (tanks g' a)) = 0" by (rule speed)
    show "cycle_next c = Inr (xs ! ((active_index xs c + 1) mod length xs), c')"
      using nx i2 by simp
    show "tanksCycle g' = Some c'" by (simp add: g'_def)
    show "activeTank g' = Some (xs ! ((active_index xs c + 1) mod length xs))"
      using i2 by (simp add: g'_def)
    show "active_index xs c' = (active_index xs c + 1) mod length xs"
      using i1 i2 by simp
    show "tanksList g' = Some xs" using assms(2) by (simp add: g'_def)
    show "turns_ok g'" by (rule ok')
  qed
  have other: "\<exists>g'. BlackEarthGame_on_key_release g k m = Inr g' \<and>
                  activeTank g' = Some a \<and> tanksCycle g' = Some c"
    if "k \<noteq> SPACE" and "k \<noteq> ESCAPE" for k
    using release_other [OF assms(4) that] assms(3,4) by simp
  have press: "\<exists>g'. BlackEarthGame_on_key_press g k m = Inr g' \<and>
                  activeTank g' = Some a \<and> tanksCycle g' = Some c" for k
    using press_any [OF assms(4)] assms(3,4) by simp
  from fire other press release_ESCAPE show ?thesis by blast
qed

text \<open>
  The theorem in the game of two tanks, where the first tank is active: after the
  release of SPACE the second tank is active and the turret of the first one rests;
  the release of another key (LEFT) leaves the first tank active.
\<close>

theorem C3_fire_release_forwards_then_advances_witness:
  "turns_ok demo_game \<and> tanksList demo_game = Some [0, 1] \<and>
   tanksCycle demo_game = Some (Cycle [1] [0] 0) \<and> activeTank demo_game = Some 0 \<and>
   (\<exists>g'. BlackEarthGame_on_key_release demo_game SPACE 0 = Inr g' \<and>
         activeTank g' = Some 1 \<and> turretSpeed (turret_obj (tanks g' 0)) = 0) \<and>
   (\<exists>g'. BlackEarthGame_on_key_release demo_game LEFT 0 = Inr g' \<and> activeTank g' = Some 0)"
proof -
  let ?xs = "[0, 1] :: ref list"
  let ?c = "Cycle [1] [0] 0 :: ref cycle"
  note h = demo_game_turns_ok demo_game_fields(1) demo_game_fields(2) demo_game_fields(3)
  note th = C3_fire_release_forwards_then_advances [OF h, of 0]
  have i: "(active_index ?xs ?c + 1) mod length ?xs = 1"
    by (simp add: active_index_def cycle_pos_def)
  from th obtain g' where
    "BlackEarthGame_on_key_release demo_game SPACE 0 = Inr g'"
    "activeTank g' = Some (?xs ! ((active_index ?xs ?c + 1) mod length ?xs))"
    "turretSpeed (turret_obj (tanks g' 0)) = 0"
    by blast
  then have fire: "\<exists>g'. BlackEarthGame_on_key_release demo_game SPACE 0 = Inr g' \<and>
         activeTank g' = Some 1 \<and> turretSpeed (turret_obj (tanks g' 0)) = 0"
    unfolding i by simp
  have "LEFT \<noteq> SPACE" and "LEFT \<noteq> ESCAPE"
    by (simp_all add: key_defs)
  with th have other:
    "\<exists>g'. BlackEarthGame_on_key_release demo_game LEFT 0 = Inr g' \<and> activeTank g' = Some 0"
    by blast
  from h fire other show ?thesis by blast
qed

subsection \<open>The turn order is circular\<close>

lemma fire_releases:
  assumes "turns_ok g" and "tanksList g = Some xs" and "tanksCycle g = Some c"
  shows "\<exists>g' c'. run_game g (replicate k (KeyRelease SPACE m)) = Inr g' \<and> turns_ok g' \<and>
           tanksList g' = Some xs \<and> tanksCycle g' = Some c' \<and>
           active_index xs c' = (active_index xs c + k) mod length xs"
  using assms
proof (induction k arbitrary: g c)
  case 0
  from 0 have "xs \<noteq> []"
    by (simp add: turns_ok_def)
  then have "active_index xs c < length xs"
    by (simp add: active_index_def)
  with 0 show ?case by simp
next
  case (Suc k)
  from Suc.prems obtain a where a: "activeTank g = Some a"
    by (auto simp add: turns_ok_def)
  from release_fire [OF Suc.prems a] obtain c1 where
    rel: "BlackEarthGame_on_key_release g SPACE m =
             Inr (g\<lparr>tanks := (tanks g)(a := Tank_on_key_release (tanks g a) SPACE m),
                    tanksCycle := Some c1, activeTank := Some (xs ! cycle_pos c)\<rparr>)"
    and over: "cycle_over xs c1" and sv: "saved c1 \<noteq> []"
    and i1: "active_index xs c1 = cycle_pos c"
    and i2: "cycle_pos c = (active_index xs c + 1) mod length xs"
    by blast
  define g1 where
    "g1 = g\<lparr>tanks := (tanks g)(a := Tank_on_key_release (tanks g a) SPACE m),
            tanksCycle := Some c1, activeTank := Some (xs ! cycle_pos c)\<rparr>"
  from Suc.prems have ne: "xs \<noteq> []"
    by (simp add: turns_ok_def)
  have ok1: "turns_ok g1"
    using Suc.prems(2) ne over sv i1 by (simp add: turns_ok_def g1_def)
  have xs1: "tanksList g1 = Some xs"
    using Suc.prems(2) by (simp add: g1_def)
  have c1: "tanksCycle g1 = Some c1"
    by (simp add: g1_def)
  from Suc.IH [OF ok1 xs1 c1] obtain g' c' where
    run: "run_game g1 (replicate k (KeyRelease SPACE m)) = Inr g'" and ok': "turns_ok g'"
    and xs': "tanksList g' = Some xs" and c': "tanksCycle g' = Some c'"
    and idx: "active_index xs c' = (active_index xs c1 + k) mod length xs"
    by blast
  have "active_index xs c' = ((active_index xs c + 1) mod length xs + k) mod length xs"
    using idx i1 i2 by simp
  also have "\<dots> = (active_index xs c + Suc k) mod length xs"
    by (simp add: mod_add_left_eq)
  finally have idx': "active_index xs c' = (active_index xs c + Suc k) mod length xs" .
  have "run_game g (replicate (Suc k) (KeyRelease SPACE m)) = Inr g'"
    using rel run by (simp add: g1_def)
  with ok' xs' c' idx' show ?case by blast
qed

text \<open>
  C8. Whatever the number of tanks and wherever the turn stands, after as many
  fire-key releases as there are tanks the tank that was active is active again (and
  the cursor is at the same place of the list).
\<close>

theorem C8_turn_order_is_circular:
  assumes "turns_ok g" and "tanksList g = Some xs" and "tanksCycle g = Some c"
  shows "\<exists>g' c'. run_game g (replicate (length xs) (KeyRelease SPACE m)) = Inr g' \<and>
           activeTank g' = activeTank g \<and> tanksList g' = Some xs \<and>
           tanksCycle g' = Some c' \<and> active_index xs c' = active_index xs c \<and>
           1 \<le> length xs"
proof -
  from fire_releases [OF assms, of "length xs" m] obtain g' c' where
    run: "run_game g (replicate (length xs) (KeyRelease SPACE m)) = Inr g'"
    and ok': "turns_ok g'" and xs': "tanksList g' = Some xs" and c': "tanksCycle g' = Some c'"
    and idx: "active_index xs c' = (active_index xs c + length xs) mod length xs"
    by blast
  from assms have ne: "xs \<noteq> []"
    by (simp add: turns_ok_def)
  then have "active_index xs c < length xs"
    by (simp add: active_index_def)
  with idx have same: "active_index xs c' = active_index xs c"
    by simp
  from ok' xs' c' have "activeTank g' = Some (xs ! active_index xs c')"
    by (simp add: turns_ok_def)
  moreover from assms have "activeTank g = Some (xs ! active_index xs c)"
    by (simp add: turns_ok_def)
  ultimately have "activeTank g' = activeTank g"
    using same by simp
  moreover from ne have "1 \<le> length xs"
    by (cases xs) simp_all
  ultimately show ?thesis
    using run xs' c' same by blast
qed

text \<open>The theorem in the game of two tanks: two releases, and the first tank is active again.\<close>

theorem C8_turn_order_is_circular_witness:
  "turns_ok demo_game \<and> tanksList demo_game = Some [0, 1] \<and>
   tanksCycle demo_game = Some (Cycle [1] [0] 0) \<and>
   (\<exists>g'. run_game demo_game [KeyRelease SPACE 0, KeyRelease SPACE 0] = Inr g' \<and>
         activeTank g' = Some 0)"
proof -
  let ?xs = "[0, 1] :: ref list"
  note h = demo_game_turns_ok demo_game_fields(1) demo_game_fields(2)
  have r: "replicate (length ?xs) (KeyRelease SPACE 0) =
             [KeyRelease SPACE 0, KeyRelease SPACE 0]"
    by (simp add: numeral_2_eq_2)
  from C8_turn_order_is_circular [OF h, of 0] obtain g' where
    "run_game demo_game (replicate (length ?xs) (KeyRelease SPACE 0)) = Inr g'"
    "activeTank g' = activeTank demo_game"
    by blast
  then have "\<exists>g'. run_game demo_game [KeyRelease SPACE 0, KeyRelease SPACE 0] = Inr g' \<and>
         activeTank g' = Some 0"
    unfolding r by (simp add: demo_game_fields)
  with h show ?thesis by blast
qed

subsection \<open>Frames\<close>

text \<open>What the physics step can touch: the bullets, the engine and the record of detonations.\<close>

lemma bullet_ground_handler_frame:
  "tanks (bullet_ground_handler g b gr) = tanks g"
  "activeTank (bullet_ground_handler g b gr) = activeTank g"
  "tanksCycle (bullet_ground_handler g b gr) = tanksCycle g"
  "tanksList (bullet_ground_handler g b gr) = tanksList g"
  "physics_engine (bullet_ground_handler g b gr) =
     map_option (\<lambda>eng. remove_sprite eng b) (physics_engine g)"
  by (simp_all add: bullet_ground_handler_def remove_from_sprite_lists_def detonate_def)

lemma post_collision_cases:
  "post_collision g a b = g \<or> post_collision g a b = bullet_ground_handler g a b"
  by (simp add: post_collision_def split: option.splits)

lemma post_collision_frame:
  "tanks (post_collision g a b) = tanks g"
  "activeTank (post_collision g a b) = activeTank g"
  "tanksCycle (post_collision g a b) = tanksCycle g"
  "tanksList (post_collision g a b) = tanksList g"
  using post_collision_cases [of g a b]
  by (auto simp add: bullet_ground_handler_frame)

lemma post_collision_engine:
  assumes "physics_engine g \<noteq> None"
  shows "physics_engine (post_collision g a b) \<noteq> None"
  using post_collision_cases [of g a b] assms
  by (auto simp add: bullet_ground_handler_frame)

lemma step_frame:
  "tanks (step g dt cs) = tanks g \<and> activeTank (step g dt cs) = activeTank g \<and>
   tanksCycle (step g dt cs) = tanksCycle g \<and> tanksList (step g dt cs) = tanksList g \<and>
   (physics_engine g \<noteq> None \<longrightarrow> physics_engine (step g dt cs) \<noteq> None)"
  unfolding step_def
proof (induction cs arbitrary: g)
  case Nil
  show ?case by simp
next
  case (Cons x cs)
  obtain a b where x: "x = (a, b)" by (cases x)
  show ?case
    using Cons [of "post_collision g a b"] post_collision_engine [of g a b]
    by (simp add: x post_collision_frame)
qed

lemma on_update_frame:
  assumes "activeTank g = Some a" and "physics_engine g \<noteq> None"
  shows "\<exists>g'. BlackEarthGame_on_update g dt cs = Inr g' \<and>
           tanks g' = (tanks g)(a := Tank_on_update (tanks g a)) \<and>
           activeTank g' = Some a \<and> tanksCycle g' = tanksCycle g \<and>
           tanksList g' = tanksList g \<and> physics_engine g' \<noteq> None"
proof -
  define g1 where "g1 = g\<lparr>tanks := (tanks g)(a := Tank_on_update (tanks g a))\<rparr>"
  from assms(2) obtain eng where eng: "physics_engine g1 = Some eng"
    by (auto simp add: g1_def)
  have "BlackEarthGame_on_update g dt cs = Inr (step g1 dt cs)"
    using assms(1) eng by (simp add: BlackEarthGame_on_update_def g1_def)
  moreover have "tanks (step g1 dt cs) = (tanks g)(a := Tank_on_update (tanks g a))"
    using step_frame [of g1 dt cs] by (simp add: g1_def)
  moreover have "activeTank (step g1 dt cs) = Some a"
    using step_frame [of g1 dt cs] assms(1) by (simp add: g1_def)
  moreover have "tanksCycle (step g1 dt cs) = tanksCycle g"
    using step_frame [of g1 dt cs] by (simp add: g1_def)
  moreover have "tanksList (step g1 dt cs) = tanksList g"
    using step_frame [of g1 dt cs] by (simp add: g1_def)
  moreover have "physics_engine (step g1 dt cs) \<noteq> None"
    using step_frame [of g1 dt cs] eng by simp
  ultimately show ?thesis by blast
qed

lemma frames_run:
  assumes "activeTank g = Some a" and "physics_engine g \<noteq> None"
  shows "\<exists>g'. run_game g (map (\<lambda>(dt, cs). Frame dt cs) frames) = Inr g' \<and>
           tanks g' = (tanks g)(a := (Tank_on_update ^^ length frames) (tanks g a)) \<and>
           activeTank g' = Some a \<and> tanksCycle g' = tanksCycle g \<and>
           tanksList g' = tanksList g"
  using assms
proof (induction frames arbitrary: g)
  case Nil
  then show ?case by simp
next
  case (Cons f frames)
  obtain dt cs where f: "f = (dt, cs)" by (cases f)
  from on_update_frame [OF Cons.prems, of dt cs] obtain g1 where
    up: "BlackEarthGame_on_update g dt cs = Inr g1"
    and t1: "tanks g1 = (tanks g)(a := Tank_on_update (tanks g a))"
    and a1: "activeTank g1 = Some a" and c1: "tanksCycle g1 = tanksCycle g"
    and l1: "tanksList g1 = tanksList g" and e1: "physics_engine g1 \<noteq> None"
    by blast
  from Cons.IH [OF a1 e1] obtain g' where
    run: "run_game g1 (map (\<lambda>(dt, cs). Frame dt cs) frames) = Inr g'"
    and t': "tanks g' = (tanks g1)(a := (Tank_on_update ^^ length frames) (tanks g1 a))"
    and a': "activeTank g' = Some a" and c': "tanksCycle g' = tanksCycle g1"
    and l': "tanksList g' = tanksList g1"
    by blast
  have "tanks g' = (tanks g)(a := (Tank_on_update ^^ length (f # frames)) (tanks g a))"
    using t' t1 by (simp add: funpow_swap1)
  moreover have "run_game g (map (\<lambda>(dt, cs). Frame dt cs) (f # frames)) = Inr g'"
    using up run by (simp add: f)
  ultimately show ?case
    using a' c' c1 l' l1 by auto
qed

text \<open>Events that keep the turn leave every tank but the active one as it is.\<close>

lemma keeps_turn_step:
  assumes "activeTank g = Some a" and "physics_engine g \<noteq> None" and "keeps_turn e"
  shows "\<exists>g'. game_step g e = Inr g' \<and> (\<forall>r. r \<noteq> a \<longrightarrow> tanks g' r = tanks g r) \<and>
           activeTank g' = Some a \<and> tanksCycle g' = tanksCycle g \<and>
           tanksList g' = tanksList g \<and> physics_engine g' \<noteq> None"
proof (cases e)
  case (KeyPress k m)
  then show ?thesis
    using press_any [OF assms(1), of k m] assms(1,2) by simp
next
  case (KeyRelease k m)
  with assms(3) have "k \<noteq> SPACE" and "k \<noteq> ESCAPE" by simp_all
  from release_other [OF assms(1) this, of m] show ?thesis
    using KeyRelease assms(1,2) by simp
next
  case (Frame dt cs)
  from on_update_frame [OF assms(1,2), of dt cs] show ?thesis
    using Frame by auto
qed

lemma keeps_turn_run:
  assumes "activeTank g = Some a" and "physics_engine g \<noteq> None" and "list_all keeps_turn evs"
  shows "\<exists>g'. run_game g evs = Inr g' \<and> (\<forall>r. r \<noteq> a \<longrightarrow> tanks g' r = tanks g r) \<and>
           activeTank g' = Some a \<and> tanksCycle g' = tanksCycle g \<and>
           tanksList g' = tanksList g"
  using assms
proof (induction evs arbitrary: g)
  case Nil
  then show ?case by simp
next
  case (Cons e evs)
  from Cons.prems(3) have e: "keeps_turn e" and evs: "list_all keeps_turn evs"
    by simp_all
  from keeps_turn_step [OF Cons.prems(1,2) e] obtain g1 where
    st: "game_step g e = Inr g1" and t1: "\<forall>r. r \<noteq> a \<longrightarrow> tanks g1 r = tanks g r"
    and a1: "activeTank g1 = Some a" and c1: "tanksCycle g1 = tanksCycle g"
    and l1: "tanksList g1 = tanksList g" and e1: "physics_engine g1 \<noteq> None"
    by blast
  from Cons.IH [OF a1 e1 evs] obtain g' where
    run: "run_game g1 evs = Inr g'" and t': "\<forall>r. r \<noteq> a \<longrightarrow> tanks g' r = tanks g1 r"
    and a': "activeTank g' = Some a" and c': "tanksCycle g' = tanksCycle g1"
    and l': "tanksList g' = tanksList g1"
    by blast
  have "run_game g (e # evs) = Inr g'"
    using st run by simp
  moreover from t1 t' have "\<forall>r. r \<noteq> a \<longrightarrow> tanks g' r = tanks g r"
    by simp
  ultimately show ?case
    using a' c' c1 l' l1 by auto
qed

text \<open>
  C6. In a game with an active tank and a physics engine, any number of frames run
  without an exception and update the active tank once each; every other tank keeps
  its turret angle and speed (it is not changed at all), and the active tank, the
  cycle and the list of tanks stay as they are. The same holds for the tanks that
  are not active when key presses and releases of keys other than SPACE and ESCAPE
  come between the frames.
\<close>

theorem C6_frames_update_the_active_tank_only:
  assumes "activeTank g = Some a" and "physics_engine g \<noteq> None"
  shows "(\<exists>g'. run_game g (map (\<lambda>(dt, cs). Frame dt cs) frames) = Inr g' \<and>
            tanks g' = (tanks g)(a := (Tank_on_update ^^ length frames) (tanks g a)) \<and>
            (\<forall>r. r \<noteq> a \<longrightarrow>
               turretAngleDeg (turret_obj (tanks g' r)) = turretAngleDeg (turret_obj (tanks g r)) \<and>
               turretSpeed (turret_obj (tanks g' r)) = turretSpeed (turret_obj (tanks g r))) \<and>
            activeTank g' = Some a \<and> tanksCycle g' = tanksCycle g \<and>
            tanksList g' = tanksList g) \<and>
         (\<forall>evs. list_all keeps_turn evs \<longrightarrow>
            (\<exists>g'. run_game g evs = Inr g' \<and>
               (\<forall>r. r \<noteq> a \<longrightarrow> tanks g' r = tanks g r) \<and>
               activeTank g' = Some a \<and> tanksCycle g' = tanksCycle g \<and>
               tanksList g' = tanksList g))"
proof -
  from frames_run [OF assms, of frames] obtain g' where
    run: "run_game g (map (\<lambda>(dt, cs). Frame dt cs) frames) = Inr g'"
    and t': "tanks g' = (tanks g)(a := (Tank_on_update ^^ length frames) (tanks g a))"
    and rest: "activeTank g' = Some a" "tanksCycle g' = tanksCycle g"
      "tanksList g' = tanksList g"
    by blast
  from t' have "\<forall>r. r \<noteq> a \<longrightarrow>
               turretAngleDeg (turret_obj (tanks g' r)) = turretAngleDeg (turret_obj (tanks g r)) \<and>
               turretSpeed (turret_obj (tanks g' r)) = turretSpeed (turret_obj (tanks g r))"
    by simp
  with run t' rest have frames_only:
    "\<exists>g'. run_game g (map (\<lambda>(dt, cs). Frame dt cs) frames) = Inr g' \<and>
            tanks g' = (tanks g)(a := (Tank_on_update ^^ length frames) (tanks g a)) \<and>
            (\<forall>r. r \<noteq> a \<longrightarrow>
               turretAngleDeg (turret_obj (tanks g' r)) = turretAngleDeg (turret_obj (tanks g r)) \<and>
               turretSpeed (turret_obj (tanks g' r)) = turretSpeed (turret_obj (tanks g r))) \<and>
            activeTank g' = Some a \<and> tanksCycle g' = tanksCycle g \<and>
            tanksList g' = tanksList g"
    by blast
  from keeps_turn_run [OF assms] frames_only show ?thesis
    by blast
qed

text \<open>
  The theorem in the game of two tanks: LEFT is pressed, two frames pass; the first
  tank is still active, and the turret of the second tank is where it was built
  (45 degrees, at rest).
\<close>

theorem C6_frames_update_the_active_tank_only_witness:
  "activeTank demo_game = Some 0 \<and> physics_engine demo_game \<noteq> None \<and>
   list_all keeps_turn [KeyPress LEFT 0, Frame (1 / 60) [], Frame (1 / 60) [(7, 2)]] \<and>
   (\<exists>g'. run_game demo_game [KeyPress LEFT 0, Frame (1 / 60) [], Frame (1 / 60) [(7, 2)]] = Inr g' \<and>
         activeTank g' = Some 0 \<and>
         turretAngleDeg (turret_obj (tanks g' 1)) = 45 \<and>
         turretSpeed (turret_obj (tanks g' 1)) = 0)"
proof -
  let ?evs = "[KeyPress LEFT 0, Frame (1 / 60) [], Frame (1 / 60) [(7, 2)]]"
  have a: "activeTank demo_game = Some 0"
    by (rule demo_game_fields(3))
  have e: "physics_engine demo_game \<noteq> None"
    by (simp add: demo_game_fields)
  have k: "list_all keeps_turn ?evs"
    by simp
  have t: "tanks demo_game 1 = Tank_init ''Player 2'' (1600 / 3, 200) (0, 0, 255)"
    by (simp add: demo_game_def demo_tanks_def)
  from C6_frames_update_the_active_tank_only [OF a e] k obtain g' where
    run: "run_game demo_game ?evs = Inr g'"
    and same: "\<forall>r. r \<noteq> 0 \<longrightarrow> tanks g' r = tanks demo_game r"
    and act: "activeTank g' = Some 0"
    by blast
  from same t have eq: "tanks g' 1 = Tank_init ''Player 2'' (1600 / 3, 200) (0, 0, 255)"
    by simp
  have "turretAngleDeg (turret_obj (tanks g' 1)) = 45"
    and "turretSpeed (turret_obj (tanks g' 1)) = 0"
    unfolding eq by (simp_all add: Tank_init_def Turret_init_def turret_consts)
  with run act a e k show ?thesis by blast
qed

subsection \<open>The turn order stays in place\<close>

lemma turns_ok_cong:
  assumes "tanksList g' = tanksList g" and "tanksCycle g' = tanksCycle g"
    and "activeTank g' = activeTank g"
  shows "turns_ok g' \<longleftrightarrow> turns_ok g"
  unfolding turns_ok_def assms by (rule refl)

lemma game_step_turns_ok:
  assumes "turns_ok g" and "game_step g e = Inr g'"
  shows "turns_ok g'"
proof -
  from assms(1) obtain xs c a where
    xs: "tanksList g = Some xs" and c: "tanksCycle g = Some c" and a: "activeTank g = Some a"
    by (auto simp add: turns_ok_def split: option.splits)
  show ?thesis
  proof (cases e)
    case (KeyPress k m)
    with assms(2) press_any [OF a, of k m] have "turns_ok g' \<longleftrightarrow> turns_ok g"
      by (intro turns_ok_cong) auto
    with assms(1) show ?thesis by simp
  next
    case (KeyRelease k m)
    show ?thesis
    proof (cases "k = SPACE")
      case True
      from release_fire [OF assms(1) xs c a, of m] obtain c' where
        rel: "BlackEarthGame_on_key_release g SPACE m =
             Inr (g\<lparr>tanks := (tanks g)(a := Tank_on_key_release (tanks g a) SPACE m),
                    tanksCycle := Some c', activeTank := Some (xs ! cycle_pos c)\<rparr>)"
        and over: "cycle_over xs c'" and sv: "saved c' \<noteq> []"
        and i1: "active_index xs c' = cycle_pos c"
        by blast
      from assms(1) xs have ne: "xs \<noteq> []"
        by (simp add: turns_ok_def split: option.splits)
      from rel assms(2) KeyRelease True have
        "g' = g\<lparr>tanks := (tanks g)(a := Tank_on_key_release (tanks g a) SPACE m),
                    tanksCycle := Some c', activeTank := Some (xs ! cycle_pos c)\<rparr>"
        by simp
      with xs ne over sv i1 show ?thesis
        by (simp add: turns_ok_def)
    next
      case False
      from assms(2) KeyRelease have esc: "k \<noteq> ESCAPE"
        by (auto simp add: release_ESCAPE)
      from assms(2) KeyRelease release_other [OF a False esc, of m]
      have "turns_ok g' \<longleftrightarrow> turns_ok g"
        by (intro turns_ok_cong) auto
      with assms(1) show ?thesis by simp
    qed
  next
    case (Frame dt cs)
    define g1 where "g1 = g\<lparr>tanks := (tanks g)(a := Tank_on_update (tanks g a))\<rparr>"
    from assms(2) Frame a have "g' = step g1 dt cs"
      by (simp add: BlackEarthGame_on_update_def g1_def split: option.splits)
    then have "turns_ok g' \<longleftrightarrow> turns_ok g1"
      using step_frame [of g1 dt cs] by (intro turns_ok_cong) simp_all
    also have "\<dots> \<longleftrightarrow> turns_ok g"
      by (intro turns_ok_cong) (simp_all add: g1_def)
    finally show ?thesis
      using assms(1) by simp
  qed
qed

text \<open>
  From the moment the last two statements of \<open>create_tanks\<close> have run, every run of
  events that ends without an exception ends with the turn order in place.
\<close>

lemma run_game_turns_ok:
  assumes "turns_ok g" and "run_game g evs = Inr g'"
  shows "turns_ok g'"
  using assms
proof (induction evs arbitrary: g)
  case Nil
  then show ?case by simp
next
  case (Cons e evs)
  from Cons.prems(2) obtain g1 where
    st: "game_step g e = Inr g1" and run: "run_game g1 evs = Inr g'"
    by (auto split: sum.splits)
  from game_step_turns_ok [OF Cons.prems(1) st] run show ?case
    by (rule Cons.IH)
qed

subsection \<open>Setting up the tanks\<close>

lemma not_binds: "\<not> binds Tank_init_params [''name'', ''parent'', ''position'', ''color'']"
  by (simp add: binds_def Tank_init_params_def)

text \<open>
  The call passes the keyword \<open>parent\<close>, which \<open>Tank.__init__\<close> does not have: a
  round of the loop never gets past the call.
\<close>

lemma new_tank_fails: "\<exists>e. new_tank cfg g num_tanks n = Inl e"
  by (simp add: new_tank_def not_binds split: sum.splits prod.splits)

lemma new_tank_TypeError:
  assumes "num_tanks + 1 \<noteq> 0" and "cycle_next (COLORS g) = Inr (col, cs)"
  shows "new_tank cfg g num_tanks n = Inl TypeError"
  using assms by (simp add: new_tank_def not_binds)

lemma create_tanks_no_tanks:
  assumes "num_tanks \<le> 0"
  shows "create_tanks cfg g num_tanks = Inl StopIteration"
  using assms by (simp add: create_tanks_def create_tanks_cycle_def itertools_cycle_def)

lemma create_tanks_never_succeeds: "\<exists>e. create_tanks cfg g num_tanks = Inl e"
proof (cases "1 \<le> num_tanks")
  case True
  then have "[1..num_tanks] = 1 # [2..num_tanks]"
    by (simp add: upto.simps)
  moreover obtain e where "new_tank cfg (g\<lparr>tanksList := Some []\<rparr>) num_tanks 1 = Inl e"
    using new_tank_fails by blast
  ultimately show ?thesis
    by (simp add: create_tanks_def)
next
  case False
  then show ?thesis
    by (simp add: create_tanks_no_tanks)
qed

lemma create_tanks_TypeError:
  assumes "1 \<le> num_tanks" and "cycle_next (COLORS g) = Inr (col, cs)"
  shows "create_tanks cfg g num_tanks = Inl TypeError"
proof -
  from assms(1) have "[1..num_tanks] = 1 # [2..num_tanks]"
    by (simp add: upto.simps)
  moreover from assms have "new_tank cfg (g\<lparr>tanksList := Some []\<rparr>) num_tanks 1 = Inl TypeError"
    by (intro new_tank_TypeError) simp_all
  ultimately show ?thesis
    by (simp add: create_tanks_def)
qed

text \<open>
  C5. The set-up of two tanks (the default), from the state that \<open>__init__\<close> leaves
  and with the colour cycle of tank.py, raises \<open>TypeError\<close> in \<open>create_tanks\<close>: no
  tank is constructed. The same happens for every number of tanks from one on, and
  with no tanks the cycle is empty: \<open>create_tanks\<close> returns a game for no input.
\<close>

theorem C5_create_tanks_raises_TypeError:
  "create_tanks cfg (BlackEarthGame_init TANK_COLORS) 2 = Inl TypeError \<and>
   BlackEarthGame_setup cfg (BlackEarthGame_init TANK_COLORS) 2 = Inl TypeError \<and>
   (\<forall>g num_tanks. \<exists>e. create_tanks cfg g num_tanks = Inl e)"
proof -
  have "\<exists>col cs. cycle_next (COLORS (BlackEarthGame_init TANK_COLORS)) = Inr (col, cs)"
    by (simp add: BlackEarthGame_init_def TANK_COLORS_def itertools_cycle_def)
  then obtain col cs where
    "cycle_next (COLORS (BlackEarthGame_init TANK_COLORS)) = Inr (col, cs)"
    by blast
  then have ct: "create_tanks cfg (BlackEarthGame_init TANK_COLORS) 2 = Inl TypeError"
    by (intro create_tanks_TypeError) simp_all
  then have "BlackEarthGame_setup cfg (BlackEarthGame_init TANK_COLORS) 2 = Inl TypeError"
    by (simp add: BlackEarthGame_setup_def)
  with ct create_tanks_never_succeeds show ?thesis
    by blast
qed

text \<open>
  C9 as it stands does not hold: with no tanks, what \<open>create_tanks\<close> raises is
  \<open>StopIteration\<close>, not \<open>InvalidTurnOrder\<close>.
\<close>

theorem C9_empty_turn_order_counterexample:
  "create_tanks demo_config (BlackEarthGame_init TANK_COLORS) 0 = Inl StopIteration \<and>
   create_tanks demo_config (BlackEarthGame_init TANK_COLORS) 0 \<noteq> Inl InvalidTurnOrder"
proof -
  have "create_tanks demo_config (BlackEarthGame_init TANK_COLORS) 0 = Inl StopIteration"
    by (rule create_tanks_no_tanks) simp
  then show ?thesis by simp
qed

text \<open>
  C9, amended. With no tanks (\<open>num_tanks\<close> at most 0) the list stays empty, the
  cycle over it is made without complaint, and the first \<open>next\<close> on it, the last
  statement of \<open>create_tanks\<close>, raises \<open>StopIteration\<close>: this is how the set-up
  ends, in \<open>create_tanks\<close> and so in \<open>setup\<close>.
\<close>

theorem C9_empty_turn_order_raises_StopIteration:
  assumes "num_tanks \<le> 0"
  shows "create_tanks cfg g num_tanks = Inl StopIteration \<and>
         BlackEarthGame_setup cfg g num_tanks = Inl StopIteration \<and>
         create_tanks_cycle (g\<lparr>tanksList := Some []\<rparr>) = Inl StopIteration \<and>
         cycle_next (itertools_cycle ([] :: ref list)) = Inl StopIteration"
proof -
  have ct: "create_tanks cfg g num_tanks = Inl StopIteration"
    using assms by (rule create_tanks_no_tanks)
  then have "BlackEarthGame_setup cfg g num_tanks = Inl StopIteration"
    by (simp add: BlackEarthGame_setup_def)
  moreover have "cycle_next (itertools_cycle ([] :: ref list)) = Inl StopIteration"
    by (simp add: itertools_cycle_def)
  moreover have "create_tanks_cycle (g\<lparr>tanksList := Some []\<rparr>) = Inl StopIteration"
    by (simp add: create_tanks_cycle_def itertools_cycle_def)
  ultimately show ?thesis
    using ct by blast
qed

theorem C9_empty_turn_order_raises_StopIteration_witness:
  "(0 :: int) \<le> 0 \<and>
   create_tanks demo_config (BlackEarthGame_init TANK_COLORS) 0 = Inl StopIteration \<and>
   BlackEarthGame_setup demo_config (BlackEarthGame_init TANK_COLORS) 0 = Inl StopIteration"
proof -
  have h: "(0 :: int) \<le> 0" by simp
  from C9_empty_turn_order_raises_StopIteration [OF h] h show ?thesis
    by blast
qed

subsection \<open>Projectiles\<close>

lemma collision_type_of_add_sprite:
  "collision_type_of (add_sprite eng b) s =
     (case collision_type_of eng s of
        Some c \<Rightarrow> Some c
      | None \<Rightarrow> if body_sprite b = s then Some (collision_type b) else None)"
  by (simp add: collision_type_of_def add_sprite_def map_add_def split: option.splits)

lemma collision_type_of_apply_impulse [simp]:
  "collision_type_of (apply_impulse eng s v) = collision_type_of eng"
  by (simp add: collision_type_of_def apply_impulse_def fun_eq_iff)

lemma unregistered_no_body:
  assumes "collision_type_of eng s = None"
  shows "filter (\<lambda>b. body_sprite b = s) (bodies eng) = []"
proof -
  from assms have "s \<notin> fst ` set (map (\<lambda>b. (body_sprite b, collision_type b)) (bodies eng))"
    by (simp add: collision_type_of_def map_of_eq_None_iff)
  then have "\<forall>b \<in> set (bodies eng). body_sprite b \<noteq> s"
    by force
  then show ?thesis
    by (simp add: filter_empty_conv)
qed

lemma add_bullet_result:
  assumes "bullets_list g = Some bl" and "physics_engine g = Some eng"
  shows "add_bullet cfg g bullet pwr =
     Inr (g\<lparr>bullets_list := Some (bl @ [sprite bullet]),
            physics_engine := Some
              (eng\<lparr>bodies := bodies eng @
                      [\<lparr> body_sprite = sprite bullet, body_kind = DYNAMIC,
                         body_mass = Some (mass bullet),
                         body_friction = Some (friction bullet),
                         body_damping = Some (DAMPING cfg),
                         collision_type = ''bullet'' \<rparr>],
                    impulses := impulses eng @ [(sprite bullet, (pwr, 0))]\<rparr>)\<rparr>)"
  using assms by (simp add: add_bullet_def add_sprite_def apply_impulse_def)

text \<open>
  C4. Let the game have a list of bullets and an engine in which the ground is
  registered, with the handler for bullet and ground, and let the projectile be new
  (not in the list, no body in the engine). Then \<open>add_bullet\<close> returns a game in
  which the list has the projectile once, at its end; the engine has one body for it,
  dynamic, of category "bullet", with the mass and the friction of the projectile
  and the damping of the configuration; and one impulse \<open>(power, 0)\<close> has been
  applied to it. A collision of the projectile with the ground in that game calls
  the handler: \<open>detonate\<close> is called on the projectile, then it is removed; the
  list is back to what it was, one shorter, without the projectile, and the engine
  has no body for it.
\<close>

theorem C4_projectile_added_then_removed_on_ground_contact:
  assumes "bullets_list g = Some bl" and "physics_engine g = Some eng"
    and "sprite bullet \<notin> set bl"
    and "collision_type_of eng (sprite bullet) = None"
    and "collision_type_of eng gr = Some ''ground''"
    and "(''bullet'', ''ground'') \<in> set (handlers eng)"
  shows "\<exists>g1 eng1 bl1 g2 eng2 bl2.
     add_bullet cfg g bullet pwr = Inr g1 \<and>
     bullets_list g1 = Some bl1 \<and> bl1 = bl @ [sprite bullet] \<and>
     count_list bl1 (sprite bullet) = 1 \<and>
     physics_engine g1 = Some eng1 \<and>
     bodies eng1 = bodies eng @
       [\<lparr> body_sprite = sprite bullet, body_kind = DYNAMIC, body_mass = Some (mass bullet),
          body_friction = Some (friction bullet), body_damping = Some (DAMPING cfg),
          collision_type = ''bullet'' \<rparr>] \<and>
     length (filter (\<lambda>b. body_sprite b = sprite bullet) (bodies eng1)) = 1 \<and>
     collision_type_of eng1 (sprite bullet) = Some ''bullet'' \<and>
     impulses eng1 = impulses eng @ [(sprite bullet, (pwr, 0))] \<and>
     handlers eng1 = handlers eng \<and>
     post_collision g1 (sprite bullet) gr = g2 \<and>
     g2 = remove_from_sprite_lists (detonate g1 (sprite bullet)) (sprite bullet) \<and>
     detonations g2 = detonations g @ [sprite bullet] \<and>
     bullets_list g2 = Some bl2 \<and> sprite bullet \<notin> set bl2 \<and>
     length bl2 = length bl1 - 1 \<and> bl2 = bl \<and>
     physics_engine g2 = Some eng2 \<and> collision_type_of eng2 (sprite bullet) = None \<and>
     bodies eng2 = bodies eng"
proof -
  define body where
    "body = \<lparr> body_sprite = sprite bullet, body_kind = DYNAMIC, body_mass = Some (mass bullet),
          body_friction = Some (friction bullet), body_damping = Some (DAMPING cfg),
          collision_type = ''bullet'' \<rparr>"
  define eng1 where
    "eng1 = eng\<lparr>bodies := bodies eng @ [body],
                impulses := impulses eng @ [(sprite bullet, (pwr, 0))]\<rparr>"
  define g1 where
    "g1 = g\<lparr>bullets_list := Some (bl @ [sprite bullet]), physics_engine := Some eng1\<rparr>"
  define g2 where "g2 = remove_from_sprite_lists (detonate g1 (sprite bullet)) (sprite bullet)"
  define eng2 where "eng2 = remove_sprite eng1 (sprite bullet)"
  have add: "add_bullet cfg g bullet pwr = Inr g1"
    using add_bullet_result [OF assms(1,2)] by (simp add: g1_def eng1_def body_def)
  have none: "filter (\<lambda>b. body_sprite b = sprite bullet) (bodies eng) = []"
    by (rule unregistered_no_body [OF assms(4)])
  have once: "count_list (bl @ [sprite bullet]) (sprite bullet) = 1"
    using assms(3) by (simp add: count_list_0_iff)
  have reg: "length (filter (\<lambda>b. body_sprite b = sprite bullet) (bodies eng1)) = 1"
    by (simp add: eng1_def none body_def)
  have eng1_add: "eng1 = apply_impulse (add_sprite eng body) (sprite bullet) (pwr, 0)"
    by (simp add: eng1_def add_sprite_def apply_impulse_def)
  have ct_b: "collision_type_of eng1 (sprite bullet) = Some ''bullet''"
    using assms(4) by (simp add: eng1_add collision_type_of_add_sprite body_def)
  have ct_gr: "collision_type_of eng1 gr = Some ''ground''"
    using assms(5) by (simp add: eng1_add collision_type_of_add_sprite)
  have hs: "handlers eng1 = handlers eng"
    by (simp add: eng1_def)
  have coll: "post_collision g1 (sprite bullet) gr = g2"
    using ct_b ct_gr assms(6) hs
    by (simp add: post_collision_def g1_def g2_def bullet_ground_handler_def)
  have det: "detonations g2 = detonations g @ [sprite bullet]"
    by (simp add: g2_def g1_def remove_from_sprite_lists_def detonate_def)
  have bl2: "bullets_list g2 = Some bl"
    using assms(3) by (simp add: g2_def g1_def remove_from_sprite_lists_def detonate_def)
  have e2: "physics_engine g2 = Some eng2"
    by (simp add: g2_def g1_def eng2_def remove_from_sprite_lists_def detonate_def)
  have keep: "filter (\<lambda>b. body_sprite b \<noteq> sprite bullet) (bodies eng) = bodies eng"
    using none by (simp add: filter_empty_conv)
  have b2: "bodies eng2 = bodies eng"
    using keep by (simp add: eng2_def remove_sprite_def eng1_def body_def)
  have ct2: "collision_type_of eng2 (sprite bullet) = None"
    using assms(4) b2 by (simp add: collision_type_of_def)
  show ?thesis
  proof (intro exI conjI)
    show "add_bullet cfg g bullet pwr = Inr g1" by (rule add)
    show "bullets_list g1 = Some (bl @ [sprite bullet])" by (simp add: g1_def)
    show "bl @ [sprite bullet] = bl @ [sprite bullet]" by (rule refl)
    show "count_list (bl @ [sprite bullet]) (sprite bullet) = 1" by (rule once)
    show "physics_engine g1 = Some eng1" by (simp add: g1_def)
    show "bodies eng1 = bodies eng @
       [\<lparr> body_sprite = sprite bullet, body_kind = DYNAMIC, body_mass = Some (mass bullet),
          body_friction = Some (friction bullet), body_damping = Some (DAMPING cfg),
          collision_type = ''bullet'' \<rparr>]"
      by (simp add: eng1_def body_def)
    show "length (filter (\<lambda>b. body_sprite b = sprite bullet) (bodies eng1)) = 1" by (rule reg)
    show "collision_type_of eng1 (sprite bullet) = Some ''bullet''" by (rule ct_b)
    show "impulses eng1 = impulses eng @ [(sprite bullet, (pwr, 0))]" by (simp add: eng1_def)
    show "handlers eng1 = handlers eng" by (rule hs)
    show "post_collision g1 (sprite bullet) gr = g2" by (rule coll)
    show "g2 = remove_from_sprite_lists (detonate g1 (sprite bullet)) (sprite bullet)"
      by (rule g2_def)
    show "detonations g2 = detonations g @ [sprite bullet]" by (rule det)
    show "bullets_list g2 = Some bl" by (rule bl2)
    show "sprite bullet \<notin> set bl" by (rule assms(3))
    show "length bl = length (bl @ [sprite bullet]) - 1" by simp
    show "bl = bl" by (rule refl)
    show "physics_engine g2 = Some eng2" by (rule e2)
    show "collision_type_of eng2 (sprite bullet) = None" by (rule ct2)
    show "bodies eng2 = bodies eng" by (rule b2)
  qed
qed

text \<open>
  The theorem in the game of two tanks, with a projectile fired at power 100: the
  list of bullets is empty, then holds the projectile, then is empty again.
\<close>

theorem C4_projectile_added_then_removed_on_ground_contact_witness:
  "bullets_list demo_game = Some [] \<and> physics_engine demo_game = Some demo_engine \<and>
   sprite demo_bullet \<notin> set [] \<and>
   collision_type_of demo_engine (sprite demo_bullet) = None \<and>
   collision_type_of demo_engine 2 = Some ''ground'' \<and>
   (''bullet'', ''ground'') \<in> set (handlers demo_engine) \<and>
   (\<exists>g1. add_bullet demo_config demo_game demo_bullet 100 = Inr g1 \<and>
      bullets_list g1 = Some [sprite demo_bullet] \<and>
      bullets_list (post_collision g1 (sprite demo_bullet) 2) = Some [] \<and>
      detonations (post_collision g1 (sprite demo_bullet) 2) = [sprite demo_bullet])"
proof -
  have h1: "bullets_list demo_game = Some []"
    by (rule demo_game_fields(4))
  have h2: "physics_engine demo_game = Some demo_engine"
    by (rule demo_game_fields(5))
  have h3: "sprite demo_bullet \<notin> set []"
    by simp
  have h4: "collision_type_of demo_engine (sprite demo_bullet) = None"
    by (simp add: collision_type_of_def demo_engine_def demo_bullet_def)
  have h5: "collision_type_of demo_engine 2 = Some ''ground''"
    by (simp add: collision_type_of_def demo_engine_def)
  have h6: "(''bullet'', ''ground'') \<in> set (handlers demo_engine)"
    by (simp add: demo_engine_def)
  have d: "detonations demo_game = []"
    by (simp add: demo_game_def demo_tanks_def)
  from C4_projectile_added_then_removed_on_ground_contact
    [OF h1 h2 h3 h4 h5 h6, of demo_config 100]
  obtain g1 g2 where
    "add_bullet demo_config demo_game demo_bullet 100 = Inr g1"
    "bullets_list g1 = Some ([] @ [sprite demo_bullet])"
    "post_collision g1 (sprite demo_bullet) 2 = g2"
    "bullets_list g2 = Some []"
    "detonations g2 = detonations demo_game @ [sprite demo_bullet]"
    by blast
  then have "\<exists>g1. add_bullet demo_config demo_game demo_bullet 100 = Inr g1 \<and>
      bullets_list g1 = Some [sprite demo_bullet] \<and>
      bullets_list (post_collision g1 (sprite demo_bullet) 2) = Some [] \<and>
      detonations (post_collision g1 (sprite demo_bullet) 2) = [sprite demo_bullet]"
    by (simp add: d)
  with h1 h2 h3 h4 h5 h6 show ?thesis
    by blast
qed

end
